theory Spec2Isabelle
  imports Complex_Main
begin

section \<open>fetch\_posts.js: strings\<close>

text \<open>
  A JavaScript string is modelled as a \<^typ>\<open>string\<close>: the list of its code units, each
  below 256. The helpers of this section are the methods of \<open>String.prototype\<close> that
  \<open>scripts/fetch_posts.js\<close> calls, written out on lists.
\<close>

definition startsWith :: "string \<Rightarrow> string \<Rightarrow> bool" where
  "startsWith s p = (take (length p) s = p)"

text \<open>\<open>s.includes(sub)\<close>: \<open>sub\<close> occurs in \<open>s\<close> as a contiguous run.\<close>

fun string_includes :: "string \<Rightarrow> string \<Rightarrow> bool" where
  "string_includes [] sub = (sub = [])"
| "string_includes (c # cs) sub = (startsWith (c # cs) sub \<or> string_includes cs sub)"

text \<open>
  \<open>s.split(sep)\<close> for a one-character separator: the pieces between the occurrences
  of \<open>sep\<close>, at least one piece (\<open>"".split("=")\<close> is \<open>[""]\<close>).
\<close>

fun split_loop :: "char \<Rightarrow> string \<Rightarrow> string \<Rightarrow> string list" where
  "split_loop sep [] cur = [cur]"
| "split_loop sep (c # cs) cur =
     (if c = sep then cur # split_loop sep cs [] else split_loop sep cs (cur @ [c]))"

definition split :: "string \<Rightarrow> char \<Rightarrow> string list" where
  "split s sep = split_loop sep s []"

text \<open>
  \<open>raw.split(/\r?\n/)\<close>: a line ends at a line feed, and a carriage return right before
  that line feed belongs to the separator. A carriage return anywhere else stays in its line.
\<close>

fun split_lines_loop :: "string \<Rightarrow> string \<Rightarrow> string list" where
  "split_lines_loop [] cur = [cur]"
| "split_lines_loop (c # cs) cur =
     (if c = CHR 0x0A then cur # split_lines_loop cs []
      else if c = CHR 0x0D then
        (case cs of
           [] \<Rightarrow> split_lines_loop cs (cur @ [c])
         | d # ds \<Rightarrow>
             if d = CHR 0x0A then cur # split_lines_loop ds []
             else split_lines_loop cs (cur @ [c]))
      else split_lines_loop cs (cur @ [c]))"

definition split_lines :: "string \<Rightarrow> string list" where
  "split_lines raw = split_lines_loop raw []"

text \<open>
  The white space and line terminators that \<open>trim\<close> removes, among the code units below
  256: tab, line feed, vertical tab, form feed, carriage return, space and no-break space.
\<close>

definition is_space :: "char \<Rightarrow> bool" where
  "is_space c = (c \<in> set [CHR 0x09, CHR 0x0A, CHR 0x0B, CHR 0x0C, CHR 0x0D, CHR 0x20, CHR 0xA0])"

definition trim :: "string \<Rightarrow> string" where
  "trim s = rev (dropWhile is_space (rev (dropWhile is_space s)))"

section \<open>The edition registry reader\<close>

text \<open>
  The loop of \<open>parseCsvLineFirstN\<close> (lines 58 to 77), as a recursion on the characters
  still to read. It returns \<open>fields\<close> and \<open>current\<close> as they are when the loop is left.
  \<open>line[i + 1]\<close> past the end is \<open>undefined\<close>, which is not a quote: the \<open>[]\<close> case.
  A doubled quote inside quotes consumes two characters (\<open>i++\<close>).
\<close>

fun parseCsvLine_loop ::
  "string \<Rightarrow> nat \<Rightarrow> string list \<Rightarrow> string \<Rightarrow> bool \<Rightarrow> string list \<times> string" where
  "parseCsvLine_loop [] n fields current inQuotes = (fields, current)"
| "parseCsvLine_loop (ch # rest) n fields current inQuotes =
     (if ch = CHR 0x22 then
        (case rest of
           [] \<Rightarrow> parseCsvLine_loop rest n fields current (\<not> inQuotes)
         | ch2 # rest2 \<Rightarrow>
             if inQuotes \<and> ch2 = CHR 0x22
             then parseCsvLine_loop rest2 n fields (current @ [CHR 0x22]) inQuotes
             else parseCsvLine_loop rest n fields current (\<not> inQuotes))
      else if ch = CHR '','' \<and> \<not> inQuotes then
        (if length (fields @ [current]) = n then (fields @ [current], [])
         else parseCsvLine_loop rest n (fields @ [current]) [] inQuotes)
      else parseCsvLine_loop rest n fields (current @ [ch]) inQuotes)"

definition parseCsvLineFirstN :: "string \<Rightarrow> nat \<Rightarrow> string list" where
  "parseCsvLineFirstN line fieldsToExtract =
     (let (fields, current) = parseCsvLine_loop line fieldsToExtract [] [] False;
          fields2 = (if length fields < fieldsToExtract then fields @ [current] else fields)
      in map trim (take fieldsToExtract fields2))"

text \<open>
  A row of \<open>readCsv\<close>: the object \<open>{ edition, link }\<close> built by destructuring the array of
  fields. A position the array does not have destructures to \<open>undefined\<close>, here \<open>None\<close>.
\<close>

record row =
  edition :: "string option"
  link :: "string option"

definition destructure :: "string list \<Rightarrow> nat \<Rightarrow> string option" where
  "destructure arr i = (if i < length arr then Some (arr ! i) else None)"

text \<open>
  \<open>readCsv\<close> on the content of the file (\<open>fs.readFileSync\<close> has returned \<open>raw\<close>). The
  first non-empty line is the header; the loop starts at index 1.
\<close>

definition readCsv :: "string \<Rightarrow> row list" where
  "readCsv raw =
     (let lines = filter (\<lambda>l. length l > 0) (split_lines raw)
      in if length lines = 0 then []
         else map (\<lambda>l. let arr = parseCsvLineFirstN l 2
                        in \<lparr>edition = destructure arr 0, link = destructure arr 1\<rparr>)
                  (tl lines))"

text \<open>
  The map built by lines 246 to 250 of \<open>main\<close>: \<open>editionToLink.set(String(row.edition),
  row.link || "")\<close> for each row in order, so a later row with the same edition wins. A row
  whose edition is \<open>undefined\<close> is passed over.
\<close>

fun editionToLink_loop :: "row list \<Rightarrow> (string \<rightharpoonup> string) \<Rightarrow> (string \<rightharpoonup> string)" where
  "editionToLink_loop [] m = m"
| "editionToLink_loop (r # rs) m =
     (case edition r of
        None \<Rightarrow> editionToLink_loop rs m
      | Some e \<Rightarrow>
          editionToLink_loop rs
            (m(e \<mapsto> (case link r of None \<Rightarrow> [] | Some l \<Rightarrow> if l = [] then [] else l))))"

definition editionToLink :: "row list \<Rightarrow> (string \<rightharpoonup> string)" where
  "editionToLink rows = editionToLink_loop rows Map.empty"

section \<open>JavaScript values\<close>

text \<open>
  The values \<open>JSON.parse\<close> returns. An array and an object carry the reference of the
  heap object they are, because \<open>===\<close> compares objects by identity; the fields of an object
  are its own properties, each key once. A number is the rational a finite double denotes
  (\<open>JSON.parse\<close> yields no \<open>NaN\<close>, and \<open>-0 === 0\<close>). \<open>undefined\<close> is \<open>None\<close> of
  \<^typ>\<open>'a option\<close>.
\<close>

type_synonym ref = nat

datatype json =
    JNull
  | JBool bool
  | JNum rat
  | JStr string
  | JArr ref "json list"
  | JObj ref "(string \<times> json) list"

type_synonym jsval = "json option"

datatype js_error = JsError (name: string) (message: string)

text \<open>\<open>class RateLimitError extends Error\<close> (lines 20 to 25).\<close>

definition RateLimitError :: "string \<Rightarrow> js_error" where
  "RateLimitError msg =
     JsError ''RateLimitError'' (if msg = [] then ''MAX_HOURLY_CALLS_EXCEEDED'' else msg)"

text \<open>Truthiness, as \<open>!x\<close> and \<open>x && y\<close> test it.\<close>

fun truthy :: "json \<Rightarrow> bool" where
  "truthy JNull = False"
| "truthy (JBool b) = b"
| "truthy (JNum n) = (n \<noteq> 0)"
| "truthy (JStr s) = (s \<noteq> [])"
| "truthy (JArr r xs) = True"
| "truthy (JObj r kvs) = True"

text \<open>
  Reading one of the properties \<open>uid\<close>, \<open>posts\<close>, \<open>success\<close>, \<open>message\<close>. None of them is
  a property of a primitive, of an array or of \<open>Object.prototype\<close>, so only an object that
  has the key gives a value; reading a property of \<open>null\<close> raises a \<open>TypeError\<close>.
\<close>

fun property :: "json \<Rightarrow> string \<Rightarrow> jsval" where
  "property (JObj r kvs) p = map_of kvs p"
| "property v p = None"

definition get_prop :: "json \<Rightarrow> string \<Rightarrow> js_error + jsval" where
  "get_prop v p =
     (if v = JNull
      then Inl (JsError ''TypeError''
                  (''Cannot read properties of null (reading '' @ [CHR 0x27] @ p @ [CHR 0x27] @ '')''))
      else Inr (property v p))"

text \<open>\<open>a === b\<close>: primitives by value, arrays and objects by reference.\<close>

definition strict_equals :: "jsval \<Rightarrow> jsval \<Rightarrow> bool" where
  "strict_equals a b =
     (case a of
        None \<Rightarrow> b = None
      | Some JNull \<Rightarrow> b = Some JNull
      | Some (JBool x) \<Rightarrow> b = Some (JBool x)
      | Some (JNum x) \<Rightarrow> b = Some (JNum x)
      | Some (JStr x) \<Rightarrow> b = Some (JStr x)
      | Some (JArr r xs) \<Rightarrow> (case b of Some (JArr s ys) \<Rightarrow> r = s | _ \<Rightarrow> False)
      | Some (JObj r kvs) \<Rightarrow> (case b of Some (JObj s kvs2) \<Rightarrow> r = s | _ \<Rightarrow> False))"

section \<open>The contiguous-author selector\<close>

text \<open>The loop of lines 152 to 159 from index \<open>i\<close> on; the list is \<open>posts\<close> from \<open>i\<close>.\<close>

fun select_loop :: "jsval \<Rightarrow> json list \<Rightarrow> json list \<Rightarrow> js_error + json list" where
  "select_loop firstUid [] result = Inr result"
| "select_loop firstUid (p # rest) result =
     (case get_prop p ''uid'' of
        Inl e \<Rightarrow> Inl e
      | Inr u \<Rightarrow>
          if strict_equals u firstUid then select_loop firstUid rest (result @ [p])
          else Inr result)"

definition selectContiguousFirstAuthorPosts :: "jsval \<Rightarrow> js_error + json list" where
  "selectContiguousFirstAuthorPosts posts =
     (case posts of
        Some (JArr r xs) \<Rightarrow>
          if length xs = 0 then Inr []
          else (case get_prop (xs ! 0) ''uid'' of
                  Inl e \<Rightarrow> Inl e
                | Inr firstUid \<Rightarrow> select_loop firstUid xs [])
      | _ \<Rightarrow> Inr [])"

section \<open>The host\<close>

text \<open>
  What one \<open>https.request\<close> ends in: the \<open>error\<close> event with its error, or the \<open>end\<close>
  event of a response with its status code and the body received.
\<close>

datatype http_result = NetworkError js_error | Response nat string

text \<open>
  A file \<open>news/editions/<editionKey>/posts.json\<close>: its text, or \<open>Unreadable\<close> when it is
  there (\<open>fs.accessSync\<close> succeeds) and \<open>fs.readFileSync\<close> throws, as for a directory of
  that name.
\<close>

datatype posts_file = Unreadable | Text string

text \<open>
  What \<open>ensureDirSync(editionDir)\<close> followed by \<open>fs.writeFileSync(postsFile, ...)\<close> ends in:
  the file holds the text written, or one of the two calls has thrown an error and the
  path is left with what the second component says (\<open>None\<close>: no file).
\<close>

datatype write_result = Written | WriteFailed js_error "posts_file option"

text \<open>
  The built-in functions and the outside world the script runs against:
  \<^item> \<open>JSON_parse\<close>: \<open>JSON.parse\<close>, \<open>Inl\<close> the message of the \<open>SyntaxError\<close> it throws;
  \<^item> \<open>JSON_stringify\<close>: the text \<open>JSON.stringify({ posts: contiguous }, null, 2)\<close>;
  \<^item> \<open>URL_searchParams\<close>: \<open>new URL(link).searchParams\<close> as its list of name and value
    pairs in order, \<open>None\<close> when the constructor throws;
  \<^item> \<open>Number_string\<close>: \<open>Number(s)\<close> on a string, \<open>None\<close> when the result is \<open>NaN\<close> or
    infinite (what \<open>Number.isFinite\<close> rejects);
  \<^item> \<open>String_number\<close>: \<open>String(n)\<close> on a number;
  \<^item> \<open>https_request\<close>: the outcome of the request numbered \<open>n\<close> of the run (from 0), sent
    with the token \<open>token\<close> for the thread \<open>tid\<close>;
  \<^item> \<open>fs_write\<close>: the outcome of creating the directory and writing the file of the
    edition key \<open>editionKey\<close> after the request numbered \<open>n\<close>, the path holding \<open>current\<close>;
  \<^item> \<open>editions_csv\<close>: the content of \<open>news/editions.csv\<close>, \<open>None\<close> when there is no such
    file; \<open>cwd\<close>: \<open>process.cwd()\<close>.
\<close>

record env =
  JSON_parse :: "string \<Rightarrow> string + json"
  JSON_stringify :: "json list \<Rightarrow> string"
  URL_searchParams :: "string \<Rightarrow> (string \<times> string) list option"
  Number_string :: "string \<Rightarrow> rat option"
  String_number :: "rat \<Rightarrow> string"
  https_request :: "nat \<Rightarrow> string \<Rightarrow> string \<Rightarrow> http_result"
  fs_write :: "nat \<Rightarrow> string \<Rightarrow> posts_file option \<Rightarrow> write_result"
  editions_csv :: "string option"
  cwd :: string

section \<open>The link-to-identifier extractor\<close>

definition is_digit :: "char \<Rightarrow> bool" where
  "is_digit c = (c \<in> set ''0123456789'')"

text \<open>\<open>/^\d+$/.test(s)\<close>: one or more characters, each of \<open>0\<close> to \<open>9\<close>.\<close>

definition digits_only :: "string \<Rightarrow> bool" where
  "digits_only s = (s \<noteq> [] \<and> list_all is_digit s)"

text \<open>
  \<open>searchParams.get("tid")\<close> is the value of the first pair named \<open>tid\<close>, or \<open>null\<close>.
  Whatever is thrown inside the \<open>try\<close> is caught and gives \<open>null\<close>; \<open>null\<close> is \<open>None\<close>.
\<close>

definition extractTidFromLink :: "env \<Rightarrow> string \<Rightarrow> string option" where
  "extractTidFromLink env lnk =
     (if lnk = [] then None
      else (case URL_searchParams env lnk of
              None \<Rightarrow> None
            | Some u \<Rightarrow>
                (case map_of u ''tid'' of
                   None \<Rightarrow> None
                 | Some tid \<Rightarrow>
                     if tid = [] then None
                     else if \<not> digits_only tid then None
                     else Some tid)))"

section \<open>The remote fetch client\<close>

text \<open>
  \<open>postJson\<close> for the request that \<open>fetchThreadPosts\<close> builds; the promise it returns is
  rejected (\<open>Inl\<close>) or resolved (\<open>Inr\<close>).
\<close>

definition postJson :: "env \<Rightarrow> nat \<Rightarrow> string \<Rightarrow> string \<Rightarrow> js_error + json" where
  "postJson env n token tid =
     (case https_request env n token tid of
        NetworkError e \<Rightarrow> Inl e
      | Response statusCode data \<Rightarrow>
          if statusCode \<noteq> 0 \<and> statusCode \<ge> 200 \<and> statusCode < 300 then
            (case JSON_parse env (if data = [] then ''{}'' else data) of
               Inl m \<Rightarrow> Inl (JsError ''Error'' (''Failed to parse JSON response: '' @ m))
             | Inr js \<Rightarrow> Inr js)
          else Inl (JsError ''Error''
                      (''HTTP '' @ String_number env (of_nat statusCode) @ '': '' @
                       (if data = [] then ''<no body>'' else data))))"

definition isArray :: "jsval \<Rightarrow> bool" where
  "isArray v = (case v of Some (JArr r xs) \<Rightarrow> True | _ \<Rightarrow> False)"

text \<open>
  \<open>fetchThreadPosts\<close> returns \<open>response.posts\<close>. The message handed to \<open>RateLimitError\<close> is
  \<open>response.message\<close>, which the test before it has found to be the text written here.
\<close>

definition fetchThreadPosts :: "env \<Rightarrow> nat \<Rightarrow> string \<Rightarrow> string \<Rightarrow> js_error + jsval" where
  "fetchThreadPosts env n token tid =
     (case postJson env n token tid of
        Inl e \<Rightarrow> Inl e
      | Inr response \<Rightarrow>
          if truthy response
             \<and> strict_equals (property response ''success'') (Some (JBool False))
             \<and> strict_equals (property response ''message'') (Some (JStr ''MAX_HOURLY_CALLS_EXCEEDED''))
          then Inl (RateLimitError ''MAX_HOURLY_CALLS_EXCEEDED'')
          else if \<not> truthy response \<or> \<not> isArray (property response ''posts'')
          then Inl (JsError ''Error'' ''Unexpected API response shape (missing posts array)'')
          else Inr (property response ''posts''))"

section \<open>The cache store and the batch orchestrator\<close>

text \<open>
  What a run changes and shows: the \<open>posts.json\<close> files by edition key, the lines written
  by \<open>console.log\<close> and by \<open>console.error\<close>, the thread identifier of every request sent
  (oldest first) and how often the registry file has been read. The directories that
  \<open>ensureDirSync\<close> creates are not part of it: nothing reads them back.
\<close>

record world =
  files :: "string \<rightharpoonup> posts_file"
  stdout :: "string list"
  stderr :: "string list"
  requests :: "string list"
  registry_reads :: nat

definition console_log :: "world \<Rightarrow> string \<Rightarrow> world" where
  "console_log w s = w\<lparr>stdout := stdout w @ [s]\<rparr>"

definition console_error :: "world \<Rightarrow> string \<Rightarrow> world" where
  "console_error w s = w\<lparr>stderr := stderr w @ [s]\<rparr>"

text \<open>
  How one step ends: control goes on with the next statement, or \<open>process.exit(code)\<close> has
  ended the process.
\<close>

datatype 'a control = Continue 'a | Exit nat 'a

fun world_of :: "world control \<Rightarrow> world" where
  "world_of (Continue w) = w"
| "world_of (Exit c w) = w"

text \<open>
  Lines 264 to 278: \<open>True\<close> exactly when the \<open>continue\<close> of line 273 is reached. A file that
  cannot be read or parsed throws inside the \<open>try\<close>, and the empty \<open>catch\<close> falls through.
\<close>

definition posts_json_complete :: "env \<Rightarrow> posts_file option \<Rightarrow> bool" where
  "posts_json_complete env f =
     (case f of
        None \<Rightarrow> False
      | Some Unreadable \<Rightarrow> False
      | Some (Text txt) \<Rightarrow>
          (case JSON_parse env txt of
             Inl m \<Rightarrow> False
           | Inr existing \<Rightarrow>
               truthy existing
               \<and> (case property existing ''posts'' of
                     Some (JArr r ps) \<Rightarrow> length ps > 0
                   | _ \<Rightarrow> False)))"

text \<open>The \<open>catch (err)\<close> block of lines 289 to 299.\<close>

definition fetch_catch :: "string \<Rightarrow> js_error \<Rightarrow> world \<Rightarrow> world control" where
  "fetch_catch editionKey err w =
     (if name err = ''RateLimitError''
         \<or> string_includes (message err) ''MAX_HOURLY_CALLS_EXCEEDED''
      then Exit 1 (console_log w ''Rate limit reached: MAX_HOURLY_CALLS_EXCEEDED. Stopping.'')
      else Continue (console_log w (''Edition '' @ editionKey @ '' - fetch failed: '' @ message err)))"

text \<open>\<open>editionToLink.get(editionKey) || ""\<close> (line 254).\<close>

definition lookup_link :: "(string \<rightharpoonup> string) \<Rightarrow> string \<Rightarrow> string" where
  "lookup_link editions editionKey =
     (case editions editionKey of None \<Rightarrow> [] | Some l \<Rightarrow> if l = [] then [] else l)"

text \<open>
  The body of the \<open>for\<close> loop (lines 253 to 299) for the edition number \<open>ed\<close>. The request
  is recorded when \<open>fetchThreadPosts\<close> is called, whatever it ends in. Whatever is thrown
  inside the \<open>try\<close> of lines 280 to 288 reaches the \<open>catch\<close>: the error of the fetch, of the
  selection, and of \<open>ensureDirSync\<close> or \<open>fs.writeFileSync\<close>.
\<close>

definition process_edition ::
  "env \<Rightarrow> (string \<rightharpoonup> string) \<Rightarrow> string \<Rightarrow> rat \<Rightarrow> world \<Rightarrow> world control" where
  "process_edition env editions token ed w =
     (let editionKey = String_number env ed;
          lnk = lookup_link editions editionKey
      in case extractTidFromLink env lnk of
           None \<Rightarrow> Continue (console_log w (''Edition '' @ editionKey @ '' - no tid found''))
         | Some tid \<Rightarrow>
             if tid = [] then
               Continue (console_log w (''Edition '' @ editionKey @ '' - no tid found''))
             else if posts_json_complete env (files w editionKey) then
               Continue (console_log w (''Edition '' @ editionKey @ '' - posts.json exists, skipping''))
             else
               (let w1 = w\<lparr>requests := requests w @ [tid]\<rparr>
                in case fetchThreadPosts env (length (requests w)) token tid of
                     Inl err \<Rightarrow> fetch_catch editionKey err w1
                   | Inr posts \<Rightarrow>
                       (case selectContiguousFirstAuthorPosts posts of
                          Inl err \<Rightarrow> fetch_catch editionKey err w1
                        | Inr contiguous \<Rightarrow>
                            (case fs_write env (length (requests w)) editionKey (files w editionKey) of
                               WriteFailed err left \<Rightarrow>
                                 fetch_catch editionKey err (w1\<lparr>files := (files w1)(editionKey := left)\<rparr>)
                             | Written \<Rightarrow>
                                 Continue
                                   (console_log
                                      (w1\<lparr>files := (files w1)(editionKey \<mapsto> Text (JSON_stringify env contiguous))\<rparr>)
                                      (''Edition '' @ editionKey @ '' - fetched '' @
                                       String_number env (of_nat (length contiguous)) @ '' post(s)''))))))"

text \<open>The \<open>for\<close> loop over the values its counter takes, in order.\<close>

fun main_loop ::
  "env \<Rightarrow> (string \<rightharpoonup> string) \<Rightarrow> string \<Rightarrow> rat list \<Rightarrow> world \<Rightarrow> world control" where
  "main_loop env editions token [] w = Continue w"
| "main_loop env editions token (ed # eds) w =
     (case process_edition env editions token ed w of
        Exit c w' \<Rightarrow> Exit c w'
      | Continue w' \<Rightarrow> main_loop env editions token eds w')"

text \<open>
  The values of \<open>ed\<close> in \<open>for (let ed = startNum; ed <= endNum; ed++)\<close> where the additions
  of the loop are exact. On the doubles of JavaScript they are when the counter starts at
  an integer of at least \<open>- 2^53\<close> and the end is below \<open>2^53\<close> (\<open>exact_counting\<close> below);
  outside of that \<open>ed++\<close> rounds, and from \<open>2^53\<close> on it no longer changes \<open>ed\<close>, so the loop
  of the script need not end. A theorem on all the runs of \<open>main\<close> that says they end
  normally assumes \<open>exact_counting\<close>; the sample runs below count within it.
\<close>

function edition_numbers :: "rat \<Rightarrow> rat \<Rightarrow> rat list" where
  "edition_numbers ed endNum =
     (if ed \<le> endNum then ed # edition_numbers (ed + 1) endNum else [])"
  by pat_completeness auto
termination
  by (relation "measure (\<lambda>(ed, endNum). nat (\<lfloor>endNum - ed\<rfloor> + 1))") (auto, linarith)

declare edition_numbers.simps [simp del]

definition exact_counting :: "rat \<Rightarrow> rat \<Rightarrow> bool" where
  "exact_counting startNum endNum =
     (of_int \<lfloor>startNum\<rfloor> = startNum \<and> - (2 ^ 53) \<le> startNum \<and> endNum < 2 ^ 53)"

section \<open>The command line\<close>

text \<open>A value of the \<open>args\<close> object: a string, or \<open>true\<close> for a flag without a value.\<close>

datatype argval = AStr string | ATrue

text \<open>
  The loop of \<open>parseArgs\<close> on \<open>argv\<close> from index \<open>i\<close> on. \<open>part.split("=")\<close> gives the key
  and, if there is a second piece, the value. An \<open>undefined\<close> or empty \<open>next\<close> is falsy.
\<close>

fun parseArgs_loop :: "string list \<Rightarrow> (string \<rightharpoonup> argval) \<Rightarrow> (string \<rightharpoonup> argval)" where
  "parseArgs_loop [] args = args"
| "parseArgs_loop (part # rest) args =
     (if startsWith part ''--'' then
        (let pieces = split part (CHR ''='');
             key = pieces ! 0;
             k = (if startsWith key ''--'' then drop 2 key else key)
         in if length pieces > 1 then parseArgs_loop rest (args(k \<mapsto> AStr (pieces ! 1)))
            else (case rest of
                    [] \<Rightarrow> parseArgs_loop rest (args(k \<mapsto> ATrue))
                  | next # rest2 \<Rightarrow>
                      if next \<noteq> [] \<and> \<not> startsWith next ''--''
                      then parseArgs_loop rest2 (args(k \<mapsto> AStr next))
                      else parseArgs_loop rest (args(k \<mapsto> ATrue))))
      else parseArgs_loop rest args)"

definition parseArgs :: "string list \<Rightarrow> (string \<rightharpoonup> argval)" where
  "parseArgs argv = parseArgs_loop (drop 2 argv) Map.empty"

definition arg_truthy :: "argval option \<Rightarrow> bool" where
  "arg_truthy v = (case v of None \<Rightarrow> False | Some (AStr s) \<Rightarrow> s \<noteq> [] | Some ATrue \<Rightarrow> True)"

text \<open>\<open>a || b\<close>.\<close>

definition or_else :: "argval option \<Rightarrow> argval option \<Rightarrow> argval option" where
  "or_else a b = (if arg_truthy a then a else b)"

text \<open>\<open>Number(v)\<close> for a truthy value of \<open>args\<close>; \<open>Number(true)\<close> is 1.\<close>

definition Number_arg :: "env \<Rightarrow> argval option \<Rightarrow> rat option" where
  "Number_arg env v =
     (case v of None \<Rightarrow> None | Some ATrue \<Rightarrow> Some 1 | Some (AStr s) \<Rightarrow> Number_string env s)"

text \<open>The token as the two request headers carry it.\<close>

definition token_text :: "argval option \<Rightarrow> string" where
  "token_text v = (case v of None \<Rightarrow> ''undefined'' | Some ATrue \<Rightarrow> ''true'' | Some (AStr s) \<Rightarrow> s)"

text \<open>
  Lines 215 to 236 of \<open>main\<close>, the handling of the command line: \<open>Inl\<close> the message
  written by \<open>console.error\<close> before \<open>process.exit(1)\<close>, or \<open>Inr\<close> the values of
  \<open>startNum\<close>, \<open>endNum\<close> and \<open>token\<close> that the rest of \<open>main\<close> uses.
\<close>

definition main_args :: "env \<Rightarrow> string list \<Rightarrow> string + (rat \<times> rat \<times> string)" where
  "main_args env argv =
     (let args = parseArgs argv;
          start = or_else (args ''start'') (args ''s'');
          endArg = or_else (args ''end'') (args ''e'');
          token = or_else (args ''token'') (args ''t'')
      in if \<not> arg_truthy start \<or> \<not> arg_truthy endArg \<or> \<not> arg_truthy token then
           Inl ''Usage: node scripts/fetch_posts.js --start <StartEditionNumber> --end <EndEditionNumber> --token <APIToken>''
         else
           (case (Number_arg env start, Number_arg env endArg) of
              (Some startNum, Some endNum) \<Rightarrow>
                if endNum < startNum then Inl ''End must be >= Start''
                else Inr (startNum, endNum, token_text token)
            | _ \<Rightarrow> Inl ''Start and End must be numeric''))"

text \<open>
  \<open>main\<close>: the exit status of the process and the world it leaves. A run that reaches the
  end of \<open>main\<close> exits with status 0.
\<close>

definition main :: "env \<Rightarrow> string list \<Rightarrow> world \<Rightarrow> nat \<times> world" where
  "main env argv w =
     (case main_args env argv of
        Inl usage \<Rightarrow> (1, console_error w usage)
      | Inr (startNum, endNum, token) \<Rightarrow>
          (case editions_csv env of
             None \<Rightarrow> (1, console_error w (''Cannot find '' @ cwd env @ ''/news/editions.csv''))
           | Some raw \<Rightarrow>
               (case main_loop env (editionToLink (readCsv raw)) token
                       (edition_numbers startNum endNum)
                       (w\<lparr>registry_reads := registry_reads w + 1\<rparr>) of
                  Continue w' \<Rightarrow> (0, w')
                | Exit c w' \<Rightarrow> (c, w'))))"

section \<open>Notions of the specification\<close>

text \<open>A string without white space at either end.\<close>

definition trimmed :: "string \<Rightarrow> bool" where
  "trimmed s = (s = [] \<or> (\<not> is_space (hd s) \<and> \<not> is_space (last s)))"

text \<open>
  The completeness of a cached result in the words of the specification: the file exists,
  it parses as JSON, and its \<open>posts\<close> field is a non-empty array. Only an object has a
  \<open>posts\<close> field.
\<close>

definition cached_result_done :: "env \<Rightarrow> posts_file option \<Rightarrow> bool" where
  "cached_result_done env f =
     (case f of
        Some (Text txt) \<Rightarrow>
          (case JSON_parse env txt of
             Inr (JObj r kvs) \<Rightarrow>
               (case map_of kvs ''posts'' of Some (JArr a ps) \<Rightarrow> ps \<noteq> [] | _ \<Rightarrow> False)
           | _ \<Rightarrow> False)
      | _ \<Rightarrow> False)"

section \<open>A sample host\<close>

text \<open>
  A small host to run the script against: decimal numerals for \<open>Number\<close> and \<open>String\<close>,
  links of the shape \<open>https://site/thread?tid=...\<close>, a compact JSON printer, a JSON reader
  that knows the bodies this host sends and the texts it prints, and a remote API that
  answers by thread identifier.
\<close>

definition digit_char :: "nat \<Rightarrow> char" where
  "digit_char d = ''0123456789'' ! d"

fun decimal :: "nat \<Rightarrow> string" where
  "decimal n = (if n < 10 then [digit_char n] else decimal (n div 10) @ [digit_char (n mod 10)])"

declare decimal.simps [simp del]

definition decimal_value :: "string \<Rightarrow> nat" where
  "decimal_value s = foldl (\<lambda>acc c. 10 * acc + (of_char c - 48)) 0 s"

definition sample_Number :: "string \<Rightarrow> rat option" where
  "sample_Number s = (if digits_only s then Some (of_nat (decimal_value s)) else None)"

definition sample_String :: "rat \<Rightarrow> string" where
  "sample_String r = decimal (nat \<lfloor>r\<rfloor>)"

text \<open>
  The query of a link \<open>https://site/thread?...\<close> without escapes: the non-empty pieces
  between ampersands, each cut at its first equals sign.
\<close>

definition query_pair :: "string \<Rightarrow> string \<times> string" where
  "query_pair s =
     (takeWhile (\<lambda>c. c \<noteq> CHR ''='') s, drop 1 (dropWhile (\<lambda>c. c \<noteq> CHR ''='') s))"

definition sample_URL :: "string \<Rightarrow> (string \<times> string) list option" where
  "sample_URL l =
     (if startsWith l ''https://site/thread'' then
        (case drop 19 l of
           [] \<Rightarrow> Some []
         | c # query \<Rightarrow>
             if c = CHR ''?''
             then Some (map query_pair (filter (\<lambda>s. s \<noteq> []) (split query (CHR ''&''))))
             else None)
      else None)"

definition sample_posts :: "json list" where
  "sample_posts =
     [JObj 3 [(''uid'', JNum 1)], JObj 4 [(''uid'', JNum 1)], JObj 5 [(''uid'', JNum 2)]]"

text \<open>
  The printer: \<open>JSON.stringify(value, null, 2)\<close> for values whose strings need no escape
  and whose numbers are natural numbers.
\<close>

fun indent :: "nat \<Rightarrow> string" where
  "indent 0 = []"
| "indent (Suc n) = ''  '' @ indent n"

fun join_lines :: "string list \<Rightarrow> string" where
  "join_lines [] = []"
| "join_lines [x] = x"
| "join_lines (x # y # ys) = x @ '','' @ [CHR 0x0A] @ join_lines (y # ys)"

fun sample_print :: "nat \<Rightarrow> json \<Rightarrow> string" where
  "sample_print n JNull = ''null''"
| "sample_print n (JBool b) = (if b then ''true'' else ''false'')"
| "sample_print n (JNum x) = decimal (nat \<lfloor>x\<rfloor>)"
| "sample_print n (JStr s) = [CHR 0x22] @ s @ [CHR 0x22]"
| "sample_print n (JArr r xs) =
     (if xs = [] then ''[]''
      else ''['' @ [CHR 0x0A] @
           join_lines (map (\<lambda>x. indent (Suc n) @ sample_print (Suc n) x) xs) @
           [CHR 0x0A] @ indent n @ '']'')"
| "sample_print n (JObj r kvs) =
     (if kvs = [] then ''{}''
      else ''{'' @ [CHR 0x0A] @
           join_lines (map (\<lambda>(k, v). indent (Suc n) @ [CHR 0x22] @ k @ [CHR 0x22] @ '': '' @
                                      sample_print (Suc n) v) kvs) @
           [CHR 0x0A] @ indent n @ ''}'')"

definition sample_stringify :: "json list \<Rightarrow> string" where
  "sample_stringify contiguous = sample_print 0 (JObj 0 [(''posts'', JArr 0 contiguous)])"

text \<open>The two texts that the runs below leave in cache files.\<close>

definition empty_posts_text :: string where
  "empty_posts_text = ''{'' @ [CHR 0x0A] @ ''  \"posts\": []'' @ [CHR 0x0A] @ ''}''"

definition two_posts_text :: string where
  "two_posts_text =
     ''{'' @ [CHR 0x0A] @
     ''  \"posts\": ['' @ [CHR 0x0A] @
     ''    {'' @ [CHR 0x0A] @
     ''      \"uid\": 1'' @ [CHR 0x0A] @
     ''    },'' @ [CHR 0x0A] @
     ''    {'' @ [CHR 0x0A] @
     ''      \"uid\": 1'' @ [CHR 0x0A] @
     ''    }'' @ [CHR 0x0A] @
     ''  ]'' @ [CHR 0x0A] @
     ''}''"

text \<open>The reader knows the bodies that the sample API sends and the two file texts.\<close>

definition sample_parse :: "string \<Rightarrow> string + json" where
  "sample_parse s =
     (if s = ''{\"posts\":[{\"uid\":1},{\"uid\":1},{\"uid\":2}]}''
        then Inr (JObj 1 [(''posts'', JArr 2 sample_posts)])
      else if s = two_posts_text
        then Inr (JObj 1 [(''posts'', JArr 2 (take 2 sample_posts))])
      else if s = ''{\"posts\":[]}'' \<or> s = empty_posts_text
        then Inr (JObj 1 [(''posts'', JArr 2 [])])
      else if s = ''{\"success\":false,\"message\":\"MAX_HOURLY_CALLS_EXCEEDED\"}''
        then Inr (JObj 1 [(''success'', JBool False),
                          (''message'', JStr ''MAX_HOURLY_CALLS_EXCEEDED'')])
      else if s = ''{}'' then Inr (JObj 1 [])
      else if s = ''null'' then Inr JNull
      else Inl ''Unexpected token'')"

definition sample_https :: "nat \<Rightarrow> string \<Rightarrow> string \<Rightarrow> http_result" where
  "sample_https n token tid =
     (if tid = ''42'' then Response 200 ''{\"posts\":[{\"uid\":1},{\"uid\":1},{\"uid\":2}]}''
      else if tid = ''43''
        then Response 200 ''{\"success\":false,\"message\":\"MAX_HOURLY_CALLS_EXCEEDED\"}''
      else if tid = ''44'' then Response 429 ''MAX_HOURLY_CALLS_EXCEEDED''
      else if tid = ''45'' then Response 200 ''{\"posts\":[]}''
      else if tid = ''46'' then Response 500 ''oops''
      else if tid = ''47'' then Response 200 ''<html>''
      else if tid = ''48'' then Response 200 []
      else NetworkError (JsError ''Error'' ''getaddrinfo ENOTFOUND hackforums.net''))"

text \<open>
  The sample file system writes every file except where a directory has the name of the
  file (the \<open>Unreadable\<close> entry): there \<open>fs.writeFileSync\<close> throws \<open>EISDIR\<close> and the directory
  stays.
\<close>

definition sample_write :: "nat \<Rightarrow> string \<Rightarrow> posts_file option \<Rightarrow> write_result" where
  "sample_write n editionKey current =
     (if current = Some Unreadable
      then WriteFailed
             (JsError ''Error''
                (''EISDIR: illegal operation on a directory, open '' @ [CHR 0x27] @
                 ''/repo/news/editions/'' @ editionKey @ ''/posts.json'' @ [CHR 0x27]))
             current
      else Written)"

definition sample_csv :: string where
  "sample_csv =
     ''Edition,Link,Name,Note'' @ [CHR 0x0A] @
     ''10,https://site/thread?tid=42,A,B'' @ [CHR 0x0A] @
     ''11,https://site/thread,A,B'' @ [CHR 0x0A] @
     ''12,https://site/thread?tid=43,A,B'' @ [CHR 0x0A] @
     ''13,https://site/thread?tid=42,A,B'' @ [CHR 0x0A] @
     ''14,https://site/thread?tid=45,A,B'' @ [CHR 0x0A] @
     ''15,https://site/thread?tid=44,A,B'' @ [CHR 0x0A] @
     ''16,https://site/thread?tid=46,A,B'' @ [CHR 0x0A]"

definition sample_host :: env where
  "sample_host =
     \<lparr>JSON_parse = sample_parse, JSON_stringify = sample_stringify,
      URL_searchParams = sample_URL, Number_string = sample_Number,
      String_number = sample_String, https_request = sample_https,
      fs_write = sample_write, editions_csv = Some sample_csv, cwd = ''/repo''\<rparr>"

definition sample_editions :: "string \<rightharpoonup> string" where
  "sample_editions = editionToLink (readCsv sample_csv)"

definition empty_world :: world where
  "empty_world =
     \<lparr>files = Map.empty, stdout = [], stderr = [], requests = [], registry_reads = 0\<rparr>"

text \<open>
  A world with two cache files: a complete one for edition 10 and one without posts for
  edition 13.
\<close>

definition stale_world :: world where
  "stale_world =
     \<lparr>files = [''10'' \<mapsto> Text two_posts_text, ''13'' \<mapsto> Text empty_posts_text],
      stdout = [], stderr = [], requests = [], registry_reads = 0\<rparr>"

text \<open>A world where a directory stands in the place of the cache file of one edition.\<close>

definition blocked_world :: "string \<Rightarrow> world" where
  "blocked_world editionKey =
     \<lparr>files = [editionKey \<mapsto> Unreadable],
      stdout = [], stderr = [], requests = [], registry_reads = 0\<rparr>"

section \<open>Properties of the contiguous-author selector\<close>

lemma select_loop_takeWhile:
  "JNull \<notin> set xs \<Longrightarrow>
   select_loop firstUid xs result =
     Inr (result @ takeWhile (\<lambda>p. strict_equals (property p ''uid'') firstUid) xs)"
  by (induction xs arbitrary: result) (auto simp: get_prop_def)

lemma select_takeWhile:
  assumes "JNull \<notin> set P"
  shows "selectContiguousFirstAuthorPosts (Some (JArr r P)) =
           Inr (takeWhile (\<lambda>p. strict_equals (property p ''uid'') (property (P ! 0) ''uid'')) P)"
proof (cases P)
  case Nil
  then show ?thesis by (simp add: selectContiguousFirstAuthorPosts_def)
next
  case (Cons p ps)
  then have "P ! 0 \<noteq> JNull" using assms by auto
  then show ?thesis
    using assms Cons
    by (simp add: selectContiguousFirstAuthorPosts_def get_prop_def select_loop_takeWhile
             del: select_loop.simps)
qed

text \<open>
  A value is \<open>===\<close> to itself, so the selection keeps the first post at least: it is empty
  only for the empty array.
\<close>

lemma strict_equals_refl: "strict_equals v v"
  by (auto simp: strict_equals_def split: option.splits json.splits)

lemma select_empty_iff:
  assumes "JNull \<notin> set P"
  shows "selectContiguousFirstAuthorPosts (Some (JArr r P)) = Inr [] \<longleftrightarrow> P = []"
proof (cases P)
  case Nil
  then show ?thesis by (simp add: selectContiguousFirstAuthorPosts_def)
next
  case (Cons p ps)
  then show ?thesis
    using select_takeWhile [OF assms, of r] by (simp add: strict_equals_refl)
qed

text \<open>
  Claim C1. Let \<open>P\<close> be a list of posts: the elements of the array handed to
  \<open>selectContiguousFirstAuthorPosts\<close>, none of them \<open>null\<close> (a post is an object; reading
  \<open>uid\<close> of \<open>null\<close> would raise). Then the call returns a list \<open>res\<close> that is a prefix of
  \<open>P\<close>; the \<open>uid\<close> of every element of \<open>res\<close> is \<open>===\<close> to the \<open>uid\<close> of \<open>P[0]\<close>; if the
  \<open>uid\<close> of \<open>P[k]\<close> differs from that of \<open>P[0]\<close> while every element before index \<open>k\<close>
  shares it, \<open>res\<close> has length exactly \<open>k\<close>; and the empty array gives the empty list.
\<close>

theorem select_contiguous_prefix:
  assumes "JNull \<notin> set P"
  shows "\<exists>res. selectContiguousFirstAuthorPosts (Some (JArr r P)) = Inr res
           \<and> res = take (length res) P
           \<and> (\<forall>p \<in> set res. strict_equals (property p ''uid'') (property (P ! 0) ''uid''))
           \<and> (\<forall>k < length P.
                 \<not> strict_equals (property (P ! k) ''uid'') (property (P ! 0) ''uid'')
                 \<and> (\<forall>j < k. strict_equals (property (P ! j) ''uid'') (property (P ! 0) ''uid''))
                 \<longrightarrow> length res = k)
           \<and> selectContiguousFirstAuthorPosts (Some (JArr r [])) = Inr []"
proof -
  let ?same = "\<lambda>p. strict_equals (property p ''uid'') (property (P ! 0) ''uid'')"
  let ?res = "takeWhile ?same P"
  have sel: "selectContiguousFirstAuthorPosts (Some (JArr r P)) = Inr ?res"
    by (rule select_takeWhile [OF assms])
  have pre: "?res = take (length ?res) P"
    by (rule takeWhile_eq_take)
  have all: "\<forall>p \<in> set ?res. ?same p"
    by (auto dest: set_takeWhileD)
  have len: "\<forall>k < length P. \<not> ?same (P ! k) \<and> (\<forall>j < k. ?same (P ! j)) \<longrightarrow> length ?res = k"
  proof (intro allI impI)
    fix k assume k: "k < length P" and h: "\<not> ?same (P ! k) \<and> (\<forall>j < k. ?same (P ! j))"
    have "takeWhile ?same P = take k P"
      by (rule takeWhile_eq_take_P_nth) (use h k in auto)
    then show "length ?res = k" using k by simp
  qed
  have emp: "selectContiguousFirstAuthorPosts (Some (JArr r [])) = Inr []"
    by (simp add: selectContiguousFirstAuthorPosts_def)
  show ?thesis using sel pre all len emp by blast
qed

theorem select_contiguous_prefix_witness:
  "JNull \<notin> set sample_posts
   \<and> selectContiguousFirstAuthorPosts (Some (JArr 2 sample_posts)) = Inr (take 2 sample_posts)"
proof -
  have h: "JNull \<notin> set sample_posts" by (simp add: sample_posts_def)
  have k: "\<not> strict_equals (property (sample_posts ! 2) ''uid'') (property (sample_posts ! 0) ''uid'')
           \<and> (\<forall>j < 2. strict_equals (property (sample_posts ! j) ''uid'') (property (sample_posts ! 0) ''uid''))"
    by (simp add: sample_posts_def strict_equals_def less_2_cases_iff)
  from select_contiguous_prefix [OF h, of 2] obtain res where
    r: "selectContiguousFirstAuthorPosts (Some (JArr 2 sample_posts)) = Inr res"
       "res = take (length res) sample_posts"
       "\<forall>k < length sample_posts.
          \<not> strict_equals (property (sample_posts ! k) ''uid'') (property (sample_posts ! 0) ''uid'')
          \<and> (\<forall>j < k. strict_equals (property (sample_posts ! j) ''uid'') (property (sample_posts ! 0) ''uid''))
          \<longrightarrow> length res = k"
    by blast
  have "length res = 2" using r(3) k by (simp add: sample_posts_def)
  then show ?thesis using h r(1) r(2) by simp
qed

section \<open>Properties of the registry reader\<close>

lemma trimmed_trim: "trimmed (trim s)"
proof -
  let ?t = "dropWhile is_space s"
  let ?u = "dropWhile is_space (rev ?t)"
  show ?thesis
  proof (cases "?u = []")
    case True
    then show ?thesis by (simp add: trimmed_def trim_def)
  next
    case False
    have t: "?t \<noteq> []"
      using False by (metis dropWhile.simps(1) rev.simps(1))
    have hdu: "\<not> is_space (hd ?u)" using False by (rule hd_dropWhile)
    have "?t = rev ?u @ rev (takeWhile is_space (rev ?t))"
      by (metis rev_append rev_rev_ident takeWhile_dropWhile_id)
    then have "hd ?t = hd (rev ?u @ rev (takeWhile is_space (rev ?t)))"
      by (rule arg_cong)
    then have "hd ?t = hd (rev ?u)" using False by (simp only: hd_append rev_is_Nil_conv if_False)
    moreover have "\<not> is_space (hd ?t)" using t by (rule hd_dropWhile)
    ultimately have "\<not> is_space (hd (rev ?u))" by simp
    moreover have "last (rev ?u) = hd ?u" using False by (simp add: last_rev)
    ultimately show ?thesis using hdu by (simp add: trimmed_def trim_def)
  qed
qed

lemma parseCsv_fields_trimmed: "f \<in> set (parseCsvLineFirstN line n) \<Longrightarrow> trimmed f"
  by (auto simp: parseCsvLineFirstN_def Let_def trimmed_trim split: prod.splits if_splits dest!: in_set_takeD)

lemma destructure_trimmed:
  "destructure (parseCsvLineFirstN line n) i = Some f \<Longrightarrow> trimmed f"
  using parseCsv_fields_trimmed [of f line n] nth_mem [of i "parseCsvLineFirstN line n"]
  by (auto simp: destructure_def split: if_splits)

lemma readCsv_rows_trimmed:
  assumes "r \<in> set (readCsv raw)"
  shows "(\<forall>e. edition r = Some e \<longrightarrow> trimmed e) \<and> (\<forall>l. link r = Some l \<longrightarrow> trimmed l)"
  using assms
  by (auto simp: readCsv_def Let_def split: if_splits dest: destructure_trimmed)

lemma editionToLink_loop_trimmed:
  assumes "\<forall>r \<in> set rows. (\<forall>e. edition r = Some e \<longrightarrow> trimmed e) \<and> (\<forall>l. link r = Some l \<longrightarrow> trimmed l)"
      and "\<forall>k v. m k = Some v \<longrightarrow> trimmed k \<and> trimmed v"
      and "editionToLink_loop rows m k = Some v"
  shows "trimmed k \<and> trimmed v"
  using assms
proof (induction rows arbitrary: m)
  case Nil
  then show ?case by simp
next
  case (Cons r rows)
  have rest: "\<forall>r \<in> set rows. (\<forall>e. edition r = Some e \<longrightarrow> trimmed e) \<and> (\<forall>l. link r = Some l \<longrightarrow> trimmed l)"
    using Cons.prems(1) by simp
  show ?case
  proof (cases "edition r")
    case None
    then have "editionToLink_loop rows m k = Some v" using Cons.prems(3) by simp
    then show ?thesis using Cons.IH [OF rest Cons.prems(2)] by blast
  next
    case (Some e)
    let ?v = "(case link r of None \<Rightarrow> [] | Some l \<Rightarrow> if l = [] then [] else l)"
    have "trimmed e" using Some Cons.prems(1) by simp
    moreover have "trimmed ?v" using Cons.prems(1) by (auto simp: trimmed_def split: option.splits)
    ultimately have inv: "\<forall>k v. (m(e \<mapsto> ?v)) k = Some v \<longrightarrow> trimmed k \<and> trimmed v"
      using Cons.prems(2) by auto
    have "editionToLink_loop rows (m(e \<mapsto> ?v)) k = Some v" using Cons.prems(3) Some by simp
    then show ?thesis using Cons.IH [OF rest inv] by blast
  qed
qed

lemma editionToLink_trimmed:
  "editionToLink (readCsv raw) k = Some v \<Longrightarrow> trimmed k \<and> trimmed v"
  unfolding editionToLink_def
  by (rule editionToLink_loop_trimmed [where rows = "readCsv raw" and m = Map.empty])
     (auto dest: readCsv_rows_trimmed)

text \<open>
  Claim C10. Every field that \<open>parseCsvLineFirstN\<close> returns has gone through \<open>trim\<close>: it
  has no white space at either end. Hence every key and every link of the lookup map that
  \<open>main\<close> builds from the rows of \<open>readCsv\<close> is without surrounding white space too, whatever
  the cells of the file hold.
\<close>

theorem registry_fields_trimmed:
  "(\<forall>f \<in> set (parseCsvLineFirstN line n). trimmed f)
   \<and> (\<forall>k v. editionToLink (readCsv raw) k = Some v \<longrightarrow> trimmed k \<and> trimmed v)"
  using parseCsv_fields_trimmed editionToLink_trimmed by blast

theorem registry_fields_trimmed_witness:
  "parseCsvLineFirstN '' 5 , \"a b\" ,x'' 2 = [''5'', ''a b'']
   \<and> trimmed ''5'' \<and> trimmed ''a b''
   \<and> editionToLink (readCsv (''Edition,Link'' @ [CHR 0x0A] @ '' 7 , http://x?tid=1 '')) ''7''
       = Some ''http://x?tid=1''
   \<and> trimmed ''7'' \<and> trimmed ''http://x?tid=1''"
proof -
  have a: "parseCsvLineFirstN '' 5 , \"a b\" ,x'' 2 = [''5'', ''a b'']"
    by (simp add: parseCsvLineFirstN_def trim_def is_space_def)
  have b: "editionToLink (readCsv (''Edition,Link'' @ [CHR 0x0A] @ '' 7 , http://x?tid=1 '')) ''7''
       = Some ''http://x?tid=1''"
    by (simp add: editionToLink_def readCsv_def split_lines_def
      parseCsvLineFirstN_def destructure_def trim_def is_space_def)
  from registry_fields_trimmed [of " '' 5 , \"a b\" ,x''" 2 "''Edition,Link'' @ [CHR 0x0A] @ '' 7 , http://x?tid=1 ''"]
  show ?thesis using a b by simp
qed

text \<open>
  Claim C5. The reading of the registry lets a missing field show: on the line \<open>5\<close>, which
  has one field, \<open>parseCsvLineFirstN\<close> returns an array of one element and not the two
  elements \<open>"5"\<close> and \<open>""\<close> that its documentation comment promises (``Missing fields are
  returned as empty strings''), so the row of \<open>readCsv\<close> has the link \<open>undefined\<close>.
\<close>

theorem readCsv_missing_link_undefined:
  "parseCsvLineFirstN ''5'' 2 = [''5'']
   \<and> readCsv (''Edition,Link,Name,Note'' @ [CHR 0x0A] @ ''5'' @ [CHR 0x0A])
       = [\<lparr>edition = Some ''5'', link = None\<rparr>]"
  by (simp add: readCsv_def split_lines_def parseCsvLineFirstN_def destructure_def trim_def is_space_def)

text \<open>
  The other parts of the description of the reader hold: the example of the specification,
  with its comma inside quotes, and the bound on the number of fields.
\<close>

lemma readCsv_spec_example:
  "readCsv (''Edition,Link,Name,Note'' @ [CHR 0x0A] @ ''5,\"http://x?tid=9,9\",A,B'' @ [CHR 0x0A])
     = [\<lparr>edition = Some ''5'', link = Some ''http://x?tid=9,9''\<rparr>]"
  by (simp add: readCsv_def split_lines_def parseCsvLineFirstN_def destructure_def trim_def is_space_def)

lemma parseCsvLineFirstN_length: "length (parseCsvLineFirstN line n) \<le> n"
  by (simp add: parseCsvLineFirstN_def Let_def split: prod.splits)

section \<open>Properties of the link-to-identifier extractor\<close>

text \<open>
  Claim C4, as amended. \<open>extractTidFromLink\<close> returns a thread identifier \<open>t\<close> exactly when
  the link is not empty, the \<open>URL\<close> constructor accepts it, the first query parameter named
  \<open>tid\<close> (the one \<open>searchParams.get\<close> returns, here \<open>map_of\<close>) has the value \<open>t\<close>, and \<open>t\<close>
  matches \<open>^\d+$\<close>: one or more ASCII digits. For every other link, the empty one among
  them, the result is \<open>null\<close>. The function is total: what the constructor throws is
  caught, so no call raises.
\<close>

theorem extractTid_characterisation:
  "(extractTidFromLink env L = Some t \<longleftrightarrow>
      L \<noteq> [] \<and> (\<exists>u. URL_searchParams env L = Some u \<and> map_of u ''tid'' = Some t) \<and> digits_only t)
   \<and> (extractTidFromLink env L = None \<longleftrightarrow>
      \<not> (L \<noteq> [] \<and> (\<exists>u t. URL_searchParams env L = Some u \<and> map_of u ''tid'' = Some t \<and> digits_only t)))
   \<and> (digits_only t \<longleftrightarrow> t \<noteq> [] \<and> list_all (\<lambda>c. c \<in> set ''0123456789'') t)
   \<and> extractTidFromLink env [] = None"
  by (auto simp: extractTidFromLink_def digits_only_def is_digit_def list_all_iff split: option.splits)

lemma sample_URL_values:
  "sample_URL ''https://site/thread?tid=42'' = Some [(''tid'', ''42'')]"
  "sample_URL ''https://site/thread?tid=43'' = Some [(''tid'', ''43'')]"
  "sample_URL ''https://site/thread?tid=44'' = Some [(''tid'', ''44'')]"
  "sample_URL ''https://site/thread?tid=45'' = Some [(''tid'', ''45'')]"
  "sample_URL ''https://site/thread?tid=46'' = Some [(''tid'', ''46'')]"
  "sample_URL ''https://site/thread?tid=4x'' = Some [(''tid'', ''4x'')]"
  "sample_URL ''https://site/thread?tid=x&tid=42'' = Some [(''tid'', ''x''), (''tid'', ''42'')]"
  "sample_URL ''https://site/thread'' = Some []"
  "sample_URL ''not a url'' = None"
  by (simp_all add: sample_URL_def startsWith_def split_def query_pair_def)

theorem extractTid_characterisation_witness:
  "extractTidFromLink sample_host ''https://site/thread?tid=42'' = Some ''42''
   \<and> digits_only ''42''
   \<and> extractTidFromLink sample_host ''https://site/thread?tid=4x'' = None
   \<and> extractTidFromLink sample_host ''https://site/thread'' = None
   \<and> extractTidFromLink sample_host ''not a url'' = None
   \<and> extractTidFromLink sample_host [] = None"
proof -
  have p: "URL_searchParams sample_host ''https://site/thread?tid=42'' = Some [(''tid'', ''42'')]"
    by (simp add: sample_host_def sample_URL_values)
  have d: "digits_only ''42''" by (simp add: digits_only_def is_digit_def)
  have a: "extractTidFromLink sample_host ''https://site/thread?tid=42'' = Some ''42''"
    using extractTid_characterisation [of sample_host "''https://site/thread?tid=42''" "''42''"] p d
    by simp
  have b: "extractTidFromLink sample_host ''https://site/thread?tid=4x'' = None"
    by (simp add: extractTidFromLink_def sample_host_def sample_URL_values digits_only_def is_digit_def)
  have c: "extractTidFromLink sample_host ''https://site/thread'' = None"
    by (simp add: extractTidFromLink_def sample_host_def sample_URL_values)
  have e: "extractTidFromLink sample_host ''not a url'' = None"
    by (simp add: extractTidFromLink_def sample_host_def sample_URL_values)
  have f: "extractTidFromLink sample_host [] = None"
    by (simp add: extractTidFromLink_def)
  show ?thesis using a b c d e f by simp
qed

text \<open>
  Claim C4 as it is written fails: the link \<open>https://site/thread?tid=x&tid=42\<close> parses and
  carries a query parameter named \<open>tid\<close> whose value \<open>42\<close> matches \<open>^\d+$\<close>, and yet the
  result is \<open>null\<close>, because \<open>searchParams.get\<close> returns the value \<open>x\<close> of the first one.
\<close>

theorem second_tid_parameter_ignored:
  "URL_searchParams sample_host ''https://site/thread?tid=x&tid=42''
     = Some [(''tid'', ''x''), (''tid'', ''42'')]
   \<and> (''tid'', ''42'') \<in> set [(''tid'', ''x''), (''tid'', ''42'')]
   \<and> digits_only ''42''
   \<and> extractTidFromLink sample_host ''https://site/thread?tid=x&tid=42'' = None"
  by (simp add: extractTidFromLink_def sample_host_def sample_URL_values digits_only_def is_digit_def)

section \<open>The steps of the batch orchestrator\<close>

text \<open>One equation for each way through the body of the loop.\<close>

lemma extractTid_nonempty: "extractTidFromLink env L = Some t \<Longrightarrow> t \<noteq> []"
  by (auto simp: extractTidFromLink_def split: option.splits if_splits)

lemma process_no_tid:
  assumes "extractTidFromLink env (lookup_link editions (String_number env ed)) = None"
  shows "process_edition env editions token ed w =
           Continue (console_log w (''Edition '' @ String_number env ed @ '' - no tid found''))"
  using assms by (simp add: process_edition_def Let_def)

lemma process_skip:
  assumes "extractTidFromLink env (lookup_link editions (String_number env ed)) = Some tid"
      and "posts_json_complete env (files w (String_number env ed))"
  shows "process_edition env editions token ed w =
           Continue (console_log w (''Edition '' @ String_number env ed @ '' - posts.json exists, skipping''))"
  using assms extractTid_nonempty [OF assms(1)] by (simp add: process_edition_def Let_def)

lemma process_fetch_error:
  assumes "extractTidFromLink env (lookup_link editions (String_number env ed)) = Some tid"
      and "\<not> posts_json_complete env (files w (String_number env ed))"
      and "fetchThreadPosts env (length (requests w)) token tid = Inl err"
  shows "process_edition env editions token ed w =
           fetch_catch (String_number env ed) err (w\<lparr>requests := requests w @ [tid]\<rparr>)"
  using assms extractTid_nonempty [OF assms(1)] by (simp add: process_edition_def Let_def)

lemma process_select_error:
  assumes "extractTidFromLink env (lookup_link editions (String_number env ed)) = Some tid"
      and "\<not> posts_json_complete env (files w (String_number env ed))"
      and "fetchThreadPosts env (length (requests w)) token tid = Inr posts"
      and "selectContiguousFirstAuthorPosts posts = Inl err"
  shows "process_edition env editions token ed w =
           fetch_catch (String_number env ed) err (w\<lparr>requests := requests w @ [tid]\<rparr>)"
  using assms extractTid_nonempty [OF assms(1)] by (simp add: process_edition_def Let_def)

lemma process_fetch_ok:
  assumes "extractTidFromLink env (lookup_link editions (String_number env ed)) = Some tid"
      and "\<not> posts_json_complete env (files w (String_number env ed))"
      and "fetchThreadPosts env (length (requests w)) token tid = Inr posts"
      and "selectContiguousFirstAuthorPosts posts = Inr contiguous"
      and "fs_write env (length (requests w)) (String_number env ed) (files w (String_number env ed))
             = Written"
  shows "process_edition env editions token ed w =
           Continue (console_log
             (w\<lparr>requests := requests w @ [tid],
                files := (files w)(String_number env ed \<mapsto> Text (JSON_stringify env contiguous))\<rparr>)
             (''Edition '' @ String_number env ed @ '' - fetched '' @
              String_number env (of_nat (length contiguous)) @ '' post(s)''))"
  using assms extractTid_nonempty [OF assms(1)] by (simp add: process_edition_def Let_def)

lemma process_write_error:
  assumes "extractTidFromLink env (lookup_link editions (String_number env ed)) = Some tid"
      and "\<not> posts_json_complete env (files w (String_number env ed))"
      and "fetchThreadPosts env (length (requests w)) token tid = Inr posts"
      and "selectContiguousFirstAuthorPosts posts = Inr contiguous"
      and "fs_write env (length (requests w)) (String_number env ed) (files w (String_number env ed))
             = WriteFailed err left"
  shows "process_edition env editions token ed w =
           fetch_catch (String_number env ed) err
             (w\<lparr>requests := requests w @ [tid],
                files := (files w)(String_number env ed := left)\<rparr>)"
  using assms extractTid_nonempty [OF assms(1)] by (simp add: process_edition_def Let_def)



lemma fetch_catch_marker:
  "string_includes (message err) ''MAX_HOURLY_CALLS_EXCEEDED'' \<Longrightarrow>
   fetch_catch editionKey err w =
     Exit 1 (console_log w ''Rate limit reached: MAX_HOURLY_CALLS_EXCEEDED. Stopping.'')"
  by (simp add: fetch_catch_def)

lemma fetch_catch_generic:
  "name err \<noteq> ''RateLimitError'' \<Longrightarrow>
   \<not> string_includes (message err) ''MAX_HOURLY_CALLS_EXCEEDED'' \<Longrightarrow>
   fetch_catch editionKey err w =
     Continue (console_log w (''Edition '' @ editionKey @ '' - fetch failed: '' @ message err))"
  by (simp add: fetch_catch_def)

lemma main_after_args:
  assumes "main_args env argv = Inr (startNum, endNum, token)"
      and "editions_csv env = Some raw"
  shows "main env argv w =
           (case main_loop env (editionToLink (readCsv raw)) token (edition_numbers startNum endNum)
                   (w\<lparr>registry_reads := registry_reads w + 1\<rparr>) of
              Continue w' \<Rightarrow> (0, w')
            | Exit c w' \<Rightarrow> (c, w'))"
  using assms by (simp add: main_def)

section \<open>The sample host at work\<close>

lemma sample_String_small:
  "String_number sample_host 0 = ''0''"
  "String_number sample_host 2 = ''2''"
  "String_number sample_host 10 = ''10''"
  "String_number sample_host 12 = ''12''"
  "String_number sample_host 13 = ''13''"
  "String_number sample_host 14 = ''14''"
  "String_number sample_host 15 = ''15''"
  "String_number sample_host 16 = ''16''"
  "String_number sample_host 429 = ''429''"
  "String_number sample_host 500 = ''500''"
  by (simp_all add: sample_host_def sample_String_def decimal.simps digit_char_def)

lemma sample_editions_table:
  "sample_editions ''10'' = Some ''https://site/thread?tid=42''"
  "sample_editions ''11'' = Some ''https://site/thread''"
  "sample_editions ''12'' = Some ''https://site/thread?tid=43''"
  "sample_editions ''13'' = Some ''https://site/thread?tid=42''"
  "sample_editions ''14'' = Some ''https://site/thread?tid=45''"
  "sample_editions ''15'' = Some ''https://site/thread?tid=44''"
  "sample_editions ''16'' = Some ''https://site/thread?tid=46''"
  by (simp_all add: sample_editions_def sample_csv_def editionToLink_def readCsv_def split_lines_def
      parseCsvLineFirstN_def destructure_def trim_def is_space_def)

lemma sample_tids:
  "extractTidFromLink sample_host ''https://site/thread?tid=42'' = Some ''42''"
  "extractTidFromLink sample_host ''https://site/thread?tid=43'' = Some ''43''"
  "extractTidFromLink sample_host ''https://site/thread?tid=44'' = Some ''44''"
  "extractTidFromLink sample_host ''https://site/thread?tid=45'' = Some ''45''"
  "extractTidFromLink sample_host ''https://site/thread?tid=46'' = Some ''46''"
  "extractTidFromLink sample_host ''https://site/thread'' = None"
  by (simp_all add: extractTidFromLink_def sample_host_def sample_URL_values
      digits_only_def is_digit_def)

lemma sample_fetches:
  "fetchThreadPosts sample_host n token ''42'' = Inr (Some (JArr 2 sample_posts))"
  "fetchThreadPosts sample_host n token ''43'' = Inl (RateLimitError ''MAX_HOURLY_CALLS_EXCEEDED'')"
  "fetchThreadPosts sample_host n token ''44'' = Inl (JsError ''Error'' ''HTTP 429: MAX_HOURLY_CALLS_EXCEEDED'')"
  "fetchThreadPosts sample_host n token ''45'' = Inr (Some (JArr 2 []))"
  "fetchThreadPosts sample_host n token ''46'' = Inl (JsError ''Error'' ''HTTP 500: oops'')"
  by (simp_all add: fetchThreadPosts_def postJson_def sample_host_def sample_https_def sample_parse_def
      empty_posts_text_def two_posts_text_def
      strict_equals_def isArray_def sample_String_def decimal.simps digit_char_def)

lemma sample_file_texts:
  "JSON_stringify sample_host [] = empty_posts_text"
  "JSON_stringify sample_host (take 2 sample_posts) = two_posts_text"
  "JSON_parse sample_host empty_posts_text = Inr (JObj 1 [(''posts'', JArr 2 [])])"
  "JSON_parse sample_host two_posts_text = Inr (JObj 1 [(''posts'', JArr 2 (take 2 sample_posts))])"
  by (simp_all add: sample_host_def sample_stringify_def sample_parse_def sample_posts_def
      empty_posts_text_def two_posts_text_def decimal.simps digit_char_def)


section \<open>Properties of the batch orchestrator\<close>

text \<open>The response that the specification calls the rate-limit response gives that failure.\<close>

lemma fetch_rate_limit_response:
  assumes "postJson env n token tid = Inr response"
      and "truthy response"
      and "property response ''success'' = Some (JBool False)"
      and "property response ''message'' = Some (JStr ''MAX_HOURLY_CALLS_EXCEEDED'')"
  shows "fetchThreadPosts env n token tid = Inl (RateLimitError ''MAX_HOURLY_CALLS_EXCEEDED'')"
  using assms by (simp add: fetchThreadPosts_def strict_equals_def)



text \<open>The test of lines 264 to 278 is the completeness of the specification.\<close>

lemma complete_iff_done: "posts_json_complete env f = cached_result_done env f"
proof (cases f)
  case None
  then show ?thesis by (simp add: posts_json_complete_def cached_result_done_def)
next
  case (Some pf)
  show ?thesis
  proof (cases pf)
    case Unreadable
    then show ?thesis using Some by (simp add: posts_json_complete_def cached_result_done_def)
  next
    case (Text body)
    show ?thesis
    proof (cases "JSON_parse env body")
      case (Inl m)
      then show ?thesis using Some Text by (simp add: posts_json_complete_def cached_result_done_def)
    next
      case (Inr existing)
      then show ?thesis using Some Text
        by (cases existing)
           (auto simp: posts_json_complete_def cached_result_done_def split: option.splits json.splits)
    qed
  qed
qed

lemma loop_without_fetch:
  assumes "\<forall>ed \<in> set eds.
             extractTidFromLink env (lookup_link editions (String_number env ed)) = None
             \<or> posts_json_complete env (files w (String_number env ed))"
  shows "\<exists>w'. main_loop env editions token eds w = Continue w'
              \<and> requests w' = requests w \<and> files w' = files w
              \<and> registry_reads w' = registry_reads w"
  using assms
proof (induction eds arbitrary: w)
  case Nil
  then show ?case by simp
next
  case (Cons ed eds)
  obtain w1 where step: "process_edition env editions token ed w = Continue w1"
    and same: "requests w1 = requests w" "files w1 = files w" "registry_reads w1 = registry_reads w"
  proof (cases "extractTidFromLink env (lookup_link editions (String_number env ed))")
    case None
    show ?thesis
      by (rule that [OF process_no_tid [OF None]]) (simp_all add: console_log_def)
  next
    case (Some tid)
    then have c: "posts_json_complete env (files w (String_number env ed))"
      using Cons.prems by simp
    show ?thesis
      by (rule that [OF process_skip [OF Some c]]) (simp_all add: console_log_def)
  qed
  have "\<forall>ed \<in> set eds.
             extractTidFromLink env (lookup_link editions (String_number env ed)) = None
             \<or> posts_json_complete env (files w1 (String_number env ed))"
    using Cons.prems same by simp
  from Cons.IH [OF this] obtain w' where
    "main_loop env editions token eds w1 = Continue w'"
    "requests w' = requests w1" "files w' = files w1" "registry_reads w' = registry_reads w1"
    by blast
  then show ?case using step same by simp
qed

lemma sample_args_10_11:
  "main_args sample_host [''node'', ''fetch_posts.js'', ''--start'', ''10'', ''--end'', ''11'', ''--token'', ''tok'']
     = Inr (10, 11, ''tok'')"
  by (simp add: main_args_def parseArgs_def Let_def startsWith_def split_def or_else_def arg_truthy_def
      Number_arg_def token_text_def sample_host_def sample_Number_def digits_only_def is_digit_def decimal_value_def)

lemma sample_String_11: "String_number sample_host 11 = ''11''"
  by (simp add: sample_host_def sample_String_def decimal.simps digit_char_def)

text \<open>
  Where the counting is exact, every value of the counter is an integer that the doubles
  hold exactly, and so is its successor: the additions of the model are those of the script.
\<close>

lemma edition_numbers_exact:
  "exact_counting startNum endNum \<Longrightarrow> ed \<in> set (edition_numbers startNum endNum) \<Longrightarrow>
   of_int \<lfloor>ed\<rfloor> = ed \<and> - (2 ^ 53) \<le> ed \<and> ed + 1 \<le> 2 ^ 53"
proof (induction startNum endNum rule: edition_numbers.induct)
  case (1 c endNum)
  show ?case
  proof (cases "c \<le> endNum")
    case False
    then show ?thesis using "1.prems"(2) by (simp add: edition_numbers.simps [of c endNum])
  next
    case True
    have int: "of_int \<lfloor>c\<rfloor> = c" and lo: "- (2 ^ 53) \<le> c" and hi: "endNum < 2 ^ 53"
      using "1.prems"(1) by (simp_all add: exact_counting_def)
    have "c < 2 ^ 53" using True hi by simp
    then have "(of_int \<lfloor>c\<rfloor> :: rat) < of_int (2 ^ 53)" using int by simp
    then have "\<lfloor>c\<rfloor> < 2 ^ 53" by (simp only: of_int_less_iff)
    then have "\<lfloor>c\<rfloor> + 1 \<le> 2 ^ 53" by simp
    then have "(of_int (\<lfloor>c\<rfloor> + 1) :: rat) \<le> of_int (2 ^ 53)" by (simp only: of_int_le_iff)
    then have up: "c + 1 \<le> 2 ^ 53" using int by simp
    have next_exact: "exact_counting (c + 1) endNum"
      using int lo hi by (simp add: exact_counting_def)
    from "1.prems"(2) True have "ed = c \<or> ed \<in> set (edition_numbers (c + 1) endNum)"
      by (simp add: edition_numbers.simps [of c endNum])
    then show ?thesis
    proof
      assume "ed = c"
      then show ?thesis using int lo up by simp
    next
      assume "ed \<in> set (edition_numbers (c + 1) endNum)"
      then show ?thesis using "1.IH" [OF True next_exact] by simp
    qed
  qed
qed

text \<open>
  Claim C8. Let a run have passed the command line and found the registry, and let every
  edition it comes to have no extractable thread identifier or a cache file that parses
  and whose \<open>posts\<close> array is not empty. Then, however many editions the loop has walked
  through, it has sent no request and left every file as it is, each edition having
  taken the no-tid or the skipping branch. Where the counting of the range is exact, the
  run ends, with status 0, no request sent and no file changed.
\<close>

theorem second_run_sends_no_request:
  assumes "main_args env argv = Inr (startNum, endNum, token)"
      and "editions_csv env = Some raw"
  shows "(\<forall>eds.
            (\<forall>ed \<in> set eds.
               extractTidFromLink env
                 (lookup_link (editionToLink (readCsv raw)) (String_number env ed)) = None
               \<or> cached_result_done env (files w (String_number env ed))) \<longrightarrow>
            (\<exists>w'. main_loop env (editionToLink (readCsv raw)) token eds
                     (w\<lparr>registry_reads := registry_reads w + 1\<rparr>) = Continue w'
                  \<and> requests w' = requests w \<and> files w' = files w))
       \<and> (exact_counting startNum endNum
            \<and> (\<forall>ed \<in> set (edition_numbers startNum endNum).
                 extractTidFromLink env
                   (lookup_link (editionToLink (readCsv raw)) (String_number env ed)) = None
                 \<or> cached_result_done env (files w (String_number env ed))) \<longrightarrow>
            (\<exists>w'. main env argv w = (0, w') \<and> requests w' = requests w \<and> files w' = files w))"
proof -
  let ?w0 = "w\<lparr>registry_reads := registry_reads w + 1\<rparr>"
  have loop: "\<exists>w'. main_loop env (editionToLink (readCsv raw)) token eds ?w0 = Continue w'
                  \<and> requests w' = requests w \<and> files w' = files w"
    if "\<forall>ed \<in> set eds.
               extractTidFromLink env
                 (lookup_link (editionToLink (readCsv raw)) (String_number env ed)) = None
               \<or> cached_result_done env (files w (String_number env ed))" for eds
  proof -
    have "\<forall>ed \<in> set eds.
             extractTidFromLink env
               (lookup_link (editionToLink (readCsv raw)) (String_number env ed)) = None
             \<or> posts_json_complete env (files ?w0 (String_number env ed))"
      using that by (simp add: complete_iff_done)
    from loop_without_fetch [OF this, of token] show ?thesis by auto
  qed
  have run: "\<exists>w'. main env argv w = (0, w') \<and> requests w' = requests w \<and> files w' = files w"
    if "\<forall>ed \<in> set (edition_numbers startNum endNum).
                 extractTidFromLink env
                   (lookup_link (editionToLink (readCsv raw)) (String_number env ed)) = None
                 \<or> cached_result_done env (files w (String_number env ed))"
  proof -
    from loop [OF that] obtain w' where
      "main_loop env (editionToLink (readCsv raw)) token (edition_numbers startNum endNum) ?w0
         = Continue w'"
      "requests w' = requests w" "files w' = files w"
      by blast
    then show ?thesis using main_after_args [OF assms(1) assms(2), of w] by simp
  qed
  show ?thesis using loop run by blast
qed

theorem second_run_sends_no_request_witness:
  "exact_counting 10 11
   \<and> fst (main sample_host
     [''node'', ''fetch_posts.js'', ''--start'', ''10'', ''--end'', ''11'', ''--token'', ''tok'']
     stale_world) = 0
   \<and> requests (snd (main sample_host
     [''node'', ''fetch_posts.js'', ''--start'', ''10'', ''--end'', ''11'', ''--token'', ''tok'']
     stale_world)) = []
   \<and> cached_result_done sample_host (files stale_world ''10'')
   \<and> extractTidFromLink sample_host (lookup_link sample_editions ''11'') = None"
proof -
  have csv: "editions_csv sample_host = Some sample_csv" by (simp add: sample_host_def)
  have eds: "edition_numbers 10 11 = [10, 11]" by (simp add: edition_numbers.simps)
  have ex: "exact_counting 10 11" by (simp add: exact_counting_def)
  have c10: "cached_result_done sample_host (files stale_world ''10'')"
    by (simp add: cached_result_done_def stale_world_def sample_file_texts sample_posts_def)
  have t11: "extractTidFromLink sample_host (lookup_link sample_editions ''11'') = None"
    using sample_editions_table(2) sample_tids(6) by (simp add: lookup_link_def)
  have all: "\<forall>ed \<in> set (edition_numbers 10 11).
             extractTidFromLink sample_host
               (lookup_link (editionToLink (readCsv sample_csv)) (String_number sample_host ed)) = None
             \<or> cached_result_done sample_host (files stale_world (String_number sample_host ed))"
    using c10 t11 by (simp add: eds sample_String_small sample_String_11 sample_editions_def)
  from second_run_sends_no_request [OF sample_args_10_11 csv, of stale_world] ex all obtain w' where
    "main sample_host
     [''node'', ''fetch_posts.js'', ''--start'', ''10'', ''--end'', ''11'', ''--token'', ''tok'']
     stale_world = (0, w')" "requests w' = requests stale_world"
    by blast
  then show ?thesis using ex c10 t11 by (simp add: stale_world_def)
qed

lemma fetch_catch_world:
  "requests (world_of (fetch_catch editionKey err w)) = requests w"
  "files (world_of (fetch_catch editionKey err w)) = files w"
  by (simp_all add: fetch_catch_def console_log_def)

lemma process_requests_when_incomplete:
  assumes "extractTidFromLink env (lookup_link editions (String_number env ed)) = Some tid"
      and "\<not> posts_json_complete env (files w (String_number env ed))"
  shows "requests (world_of (process_edition env editions token ed w)) = requests w @ [tid]"
proof (cases "fetchThreadPosts env (length (requests w)) token tid")
  case (Inl err)
  show ?thesis
    by (simp add: process_fetch_error [OF assms Inl] fetch_catch_world)
next
  case (Inr posts)
  show ?thesis
  proof (cases "selectContiguousFirstAuthorPosts posts")
    case (Inl err)
    show ?thesis
      by (simp add: process_select_error [OF assms Inr Inl] fetch_catch_world)
  next
    case sel: (Inr contiguous)
    show ?thesis
    proof (cases "fs_write env (length (requests w)) (String_number env ed)
                    (files w (String_number env ed))")
      case Written
      show ?thesis
        by (simp add: process_fetch_ok [OF assms Inr sel Written] console_log_def)
    next
      case (WriteFailed err left)
      show ?thesis
        by (simp add: process_write_error [OF assms Inr sel WriteFailed] fetch_catch_world)
    qed
  qed
qed


lemma sample_blocked_14:
  "extractTidFromLink sample_host (lookup_link sample_editions (String_number sample_host 14))
     = Some ''45''"
  "\<not> posts_json_complete sample_host (files (blocked_world ''14'') (String_number sample_host 14))"
  "fs_write sample_host (length (requests (blocked_world ''14''))) (String_number sample_host 14)
     (files (blocked_world ''14'') (String_number sample_host 14))
     = WriteFailed
         (JsError ''Error''
            (''EISDIR: illegal operation on a directory, open '' @ [CHR 0x27] @
             ''/repo/news/editions/14/posts.json'' @ [CHR 0x27]))
         (Some Unreadable)"
proof -
  show "extractTidFromLink sample_host (lookup_link sample_editions (String_number sample_host 14))
     = Some ''45''"
    using sample_editions_table(5) sample_tids(4) by (simp add: lookup_link_def sample_String_small)
  show "\<not> posts_json_complete sample_host (files (blocked_world ''14'') (String_number sample_host 14))"
    by (simp add: posts_json_complete_def blocked_world_def sample_String_small)
  show "fs_write sample_host (length (requests (blocked_world ''14''))) (String_number sample_host 14)
     (files (blocked_world ''14'') (String_number sample_host 14))
     = WriteFailed
         (JsError ''Error''
            (''EISDIR: illegal operation on a directory, open '' @ [CHR 0x27] @
             ''/repo/news/editions/14/posts.json'' @ [CHR 0x27]))
         (Some Unreadable)"
    by (simp add: sample_String_small blocked_world_def) (simp add: sample_host_def sample_write_def)
qed

lemma eisdir_message_has_no_marker:
  "\<not> string_includes
        (''EISDIR: illegal operation on a directory, open '' @ [CHR 0x27] @
         ''/repo/news/editions/'' @ [CHR ''1'', c] @ ''/posts.json'' @ [CHR 0x27])
        ''MAX_HOURLY_CALLS_EXCEEDED''"
  by (simp add: startsWith_def)




lemma extractTid_other_requests [simp]:
  "extractTidFromLink (env\<lparr>https_request := api\<rparr>) L = extractTidFromLink env L"
  by (simp add: extractTidFromLink_def)

lemma complete_other_requests [simp]:
  "posts_json_complete (env\<lparr>https_request := api\<rparr>) f = posts_json_complete env f"
  by (simp add: posts_json_complete_def split: option.splits posts_file.splits)

text \<open>
  Claim C9 as it is written fails: the API returns an empty \<open>posts\<close> array for edition 14,
  so the fetch succeeds and the selection is empty, but a directory stands in the place
  of the cache file, \<open>fs.writeFileSync\<close> throws, and no cache file is written.
\<close>

theorem empty_selection_not_written:
  "fetchThreadPosts sample_host 0 ''tok'' ''45'' = Inr (Some (JArr 2 []))
   \<and> selectContiguousFirstAuthorPosts (Some (JArr 2 [])) = Inr []
   \<and> process_edition sample_host sample_editions ''tok'' 14 (blocked_world ''14'')
       = Continue (console_log ((blocked_world ''14'')\<lparr>requests := [''45'']\<rparr>)
           (''Edition 14 - fetch failed: EISDIR: illegal operation on a directory, open '' @
            [CHR 0x27] @ ''/repo/news/editions/14/posts.json'' @ [CHR 0x27]))
   \<and> files (world_of (process_edition sample_host sample_editions ''tok'' 14 (blocked_world ''14''))) ''14''
       = Some Unreadable"
proof -
  have f: "fetchThreadPosts sample_host (length (requests (blocked_world ''14''))) ''tok'' ''45''
             = Inr (Some (JArr 2 []))"
    by (rule sample_fetches)
  have sel: "selectContiguousFirstAuthorPosts (Some (JArr 2 [])) = Inr []"
    by (simp add: selectContiguousFirstAuthorPosts_def)
  have step: "process_edition sample_host sample_editions ''tok'' 14 (blocked_world ''14'')
       = Continue (console_log ((blocked_world ''14'')\<lparr>requests := [''45'']\<rparr>)
           (''Edition 14 - fetch failed: EISDIR: illegal operation on a directory, open '' @
            [CHR 0x27] @ ''/repo/news/editions/14/posts.json'' @ [CHR 0x27]))"
    using process_write_error [OF sample_blocked_14(1) sample_blocked_14(2) f sel sample_blocked_14(3)]
          eisdir_message_has_no_marker [of "CHR ''4''"]
    by (simp add: fetch_catch_def sample_String_small blocked_world_def console_log_def)
  show ?thesis
    using step sel sample_fetches(4) [of 0 "''tok''"]
    by (simp add: blocked_world_def console_log_def)
qed

text \<open>
  Claim C9, as amended. Let the fetch for an edition succeed, the contiguous selection be
  empty (as it is when the API returns an empty \<open>posts\<close> array) and neither the creation
  of the directory nor the write throw. Then the orchestrator writes the cache file all
  the same, with the text of \<open>{ posts: [] }\<close>. Given that \<open>JSON.parse\<close> reads that text back
  as an object with an empty \<open>posts\<close> array, the file fails the completeness test, so in
  any later run that reaches the edition with this file on disk, whatever the remote API
  then answers, the edition is requested again.
\<close>

theorem empty_selection_refetched:
  assumes "extractTidFromLink env (lookup_link editions (String_number env ed)) = Some tid"
      and "\<not> posts_json_complete env (files w (String_number env ed))"
      and "fetchThreadPosts env (length (requests w)) token tid = Inr posts"
      and "selectContiguousFirstAuthorPosts posts = Inr []"
      and "fs_write env (length (requests w)) (String_number env ed) (files w (String_number env ed))
             = Written"
      and "JSON_parse env (JSON_stringify env []) = Inr (JObj a [(''posts'', JArr b [])])"
  shows "files (world_of (process_edition env editions token ed w)) (String_number env ed)
           = Some (Text (JSON_stringify env []))
       \<and> \<not> posts_json_complete env (Some (Text (JSON_stringify env [])))
       \<and> (\<forall>w2 api token2.
             files w2 (String_number env ed) = Some (Text (JSON_stringify env [])) \<longrightarrow>
             requests (world_of (process_edition (env\<lparr>https_request := api\<rparr>) editions token2 ed w2))
               = requests w2 @ [tid])"
proof -
  let ?key = "String_number env ed"
  have written: "files (world_of (process_edition env editions token ed w)) ?key
           = Some (Text (JSON_stringify env []))"
    by (simp add: process_fetch_ok [OF assms(1-5)] console_log_def)
  have inc: "\<not> posts_json_complete env (Some (Text (JSON_stringify env [])))"
    using assms(6) by (simp add: posts_json_complete_def)
  have again: "requests (world_of (process_edition (env\<lparr>https_request := api\<rparr>) editions token2 ed w2))
               = requests w2 @ [tid]"
    if f: "files w2 ?key = Some (Text (JSON_stringify env []))" for w2 api token2
  proof -
    let ?env2 = "env\<lparr>https_request := api\<rparr>"
    have t: "extractTidFromLink ?env2 (lookup_link editions (String_number ?env2 ed)) = Some tid"
      using assms(1) by simp
    have i: "\<not> posts_json_complete ?env2 (files w2 (String_number ?env2 ed))"
      using inc f by simp
    show ?thesis by (rule process_requests_when_incomplete [OF t i])
  qed
  show ?thesis using written inc again by blast
qed

theorem empty_selection_refetched_witness:
  "files (world_of (process_edition sample_host sample_editions ''tok'' 14 empty_world)) ''14''
     = Some (Text empty_posts_text)
   \<and> requests (world_of (process_edition sample_host sample_editions ''tok'' 14
        (world_of (process_edition sample_host sample_editions ''tok'' 14 empty_world))))
     = [''45'', ''45'']"
proof -
  let ?w1 = "world_of (process_edition sample_host sample_editions ''tok'' 14 empty_world)"
  have t: "extractTidFromLink sample_host
               (lookup_link sample_editions (String_number sample_host 14)) = Some ''45''"
    using sample_editions_table(5) sample_tids(4) by (simp add: lookup_link_def sample_String_small)
  have i: "\<not> posts_json_complete sample_host (files empty_world (String_number sample_host 14))"
    by (simp add: posts_json_complete_def empty_world_def)
  have f: "fetchThreadPosts sample_host (length (requests empty_world)) ''tok'' ''45''
             = Inr (Some (JArr 2 []))"
    by (rule sample_fetches)
  have s: "selectContiguousFirstAuthorPosts (Some (JArr 2 [])) = Inr []"
    by (simp add: selectContiguousFirstAuthorPosts_def)
  have wr: "fs_write sample_host (length (requests empty_world)) (String_number sample_host 14)
              (files empty_world (String_number sample_host 14)) = Written"
    by (simp add: sample_host_def sample_write_def empty_world_def)
  have rt: "JSON_parse sample_host (JSON_stringify sample_host []) = Inr (JObj 1 [(''posts'', JArr 2 [])])"
    by (simp add: sample_file_texts)
  have same: "sample_host\<lparr>https_request := sample_https\<rparr> = sample_host"
    by (simp add: sample_host_def)
  note th = empty_selection_refetched [OF t i f s wr rt]
  have w: "files ?w1 (String_number sample_host 14) = Some (Text (JSON_stringify sample_host []))"
    using th by blast
  have r1: "requests ?w1 = [''45'']"
    using process_requests_when_incomplete [OF t i, of "''tok''"] by (simp add: empty_world_def)
  have "requests (world_of (process_edition (sample_host\<lparr>https_request := sample_https\<rparr>)
            sample_editions ''tok'' 14 ?w1)) = requests ?w1 @ [''45'']"
    using th w by blast
  then show ?thesis using w r1 by (simp add: same sample_String_small sample_file_texts)
qed

lemma strict_equals_primitive:
  "strict_equals v (Some (JBool b)) \<longleftrightarrow> v = Some (JBool b)"
  "strict_equals v (Some (JStr t)) \<longleftrightarrow> v = Some (JStr t)"
  by (auto simp: strict_equals_def split: option.splits json.splits)

lemma shape_message_has_no_marker:
  "\<not> string_includes ''Unexpected API response shape (missing posts array)'' ''MAX_HOURLY_CALLS_EXCEEDED''"
  by (simp add: startsWith_def)

lemma fetch_http_status:
  assumes "https_request env n token tid = Response statusCode data"
      and "\<not> (200 \<le> statusCode \<and> statusCode < 300)"
  shows "fetchThreadPosts env n token tid =
           Inl (JsError ''Error''
                  (''HTTP '' @ String_number env (of_nat statusCode) @ '': '' @
                   (if data = [] then ''<no body>'' else data)))"
  using assms by (auto simp: fetchThreadPosts_def postJson_def)

lemma fetch_not_json:
  assumes "https_request env n token tid = Response statusCode data"
      and "200 \<le> statusCode \<and> statusCode < 300"
      and "JSON_parse env (if data = [] then ''{}'' else data) = Inl m"
  shows "fetchThreadPosts env n token tid =
           Inl (JsError ''Error'' (''Failed to parse JSON response: '' @ m))"
  using assms by (auto simp: fetchThreadPosts_def postJson_def)

lemma fetch_missing_posts:
  assumes "https_request env n token tid = Response statusCode data"
      and "200 \<le> statusCode \<and> statusCode < 300"
      and "JSON_parse env (if data = [] then ''{}'' else data) = Inr response"
      and "\<not> isArray (property response ''posts'')"
      and "\<not> (property response ''success'' = Some (JBool False)
              \<and> property response ''message'' = Some (JStr ''MAX_HOURLY_CALLS_EXCEEDED''))"
  shows "fetchThreadPosts env n token tid =
           Inl (JsError ''Error'' ''Unexpected API response shape (missing posts array)'')"
  using assms by (auto simp: fetchThreadPosts_def postJson_def strict_equals_primitive)

text \<open>
  Claim C6, as amended. A fetch failure that is not a \<open>RateLimitError\<close> and whose message
  does not contain the text \<open>MAX_HOURLY_CALLS_EXCEEDED\<close> is a failure of its edition only: it
  is logged with its message and the batch goes on with the next edition. A failure whose
  message contains that text halts the batch with status 1, as the rate-limit failure does.
  The message of a status outside 200 to 299 is \<open>HTTP\<close>, the status and the raw body, that of
  a body that is not JSON starts with \<open>Failed to parse JSON response\<close>, and a JSON response
  without a \<open>posts\<close> array (and not of the rate-limit shape) always is such a failure of its
  edition only.
\<close>

theorem generic_failure_advances:
  assumes "extractTidFromLink env (lookup_link editions (String_number env ed)) = Some tid"
      and "\<not> posts_json_complete env (files w (String_number env ed))"
  shows "(\<forall>err. fetchThreadPosts env (length (requests w)) token tid = Inl err
               \<and> name err \<noteq> ''RateLimitError''
               \<and> \<not> string_includes (message err) ''MAX_HOURLY_CALLS_EXCEEDED'' \<longrightarrow>
            main_loop env editions token (ed # rest) w =
              main_loop env editions token rest
                (console_log (w\<lparr>requests := requests w @ [tid]\<rparr>)
                   (''Edition '' @ String_number env ed @ '' - fetch failed: '' @ message err)))
       \<and> (\<forall>err. fetchThreadPosts env (length (requests w)) token tid = Inl err
               \<and> string_includes (message err) ''MAX_HOURLY_CALLS_EXCEEDED'' \<longrightarrow>
            main_loop env editions token (ed # rest) w =
              Exit 1 (console_log (w\<lparr>requests := requests w @ [tid]\<rparr>)
                        ''Rate limit reached: MAX_HOURLY_CALLS_EXCEEDED. Stopping.''))
       \<and> (\<forall>statusCode data.
            https_request env (length (requests w)) token tid = Response statusCode data
            \<and> \<not> (200 \<le> statusCode \<and> statusCode < 300) \<longrightarrow>
            fetchThreadPosts env (length (requests w)) token tid =
              Inl (JsError ''Error''
                     (''HTTP '' @ String_number env (of_nat statusCode) @ '': '' @
                      (if data = [] then ''<no body>'' else data))))
       \<and> (\<forall>statusCode data m.
            https_request env (length (requests w)) token tid = Response statusCode data
            \<and> 200 \<le> statusCode \<and> statusCode < 300
            \<and> JSON_parse env (if data = [] then ''{}'' else data) = Inl m \<longrightarrow>
            fetchThreadPosts env (length (requests w)) token tid =
              Inl (JsError ''Error'' (''Failed to parse JSON response: '' @ m)))
       \<and> (\<forall>statusCode data response.
            https_request env (length (requests w)) token tid = Response statusCode data
            \<and> 200 \<le> statusCode \<and> statusCode < 300
            \<and> JSON_parse env (if data = [] then ''{}'' else data) = Inr response
            \<and> \<not> isArray (property response ''posts'')
            \<and> \<not> (property response ''success'' = Some (JBool False)
                   \<and> property response ''message'' = Some (JStr ''MAX_HOURLY_CALLS_EXCEEDED'')) \<longrightarrow>
            main_loop env editions token (ed # rest) w =
              main_loop env editions token rest
                (console_log (w\<lparr>requests := requests w @ [tid]\<rparr>)
                   (''Edition '' @ String_number env ed @
                    '' - fetch failed: Unexpected API response shape (missing posts array)'')))"
proof -
  let ?w1 = "w\<lparr>requests := requests w @ [tid]\<rparr>"
  have generic: "main_loop env editions token (ed # rest) w =
              main_loop env editions token rest
                (console_log ?w1 (''Edition '' @ String_number env ed @ '' - fetch failed: '' @ message err))"
    if "fetchThreadPosts env (length (requests w)) token tid = Inl err"
       "name err \<noteq> ''RateLimitError''"
       "\<not> string_includes (message err) ''MAX_HOURLY_CALLS_EXCEEDED''" for err
    using process_fetch_error [OF assms that(1)] fetch_catch_generic [OF that(2) that(3)]
    by simp
  have marker: "main_loop env editions token (ed # rest) w =
              Exit 1 (console_log ?w1 ''Rate limit reached: MAX_HOURLY_CALLS_EXCEEDED. Stopping.'')"
    if "fetchThreadPosts env (length (requests w)) token tid = Inl err"
       "string_includes (message err) ''MAX_HOURLY_CALLS_EXCEEDED''" for err
    using process_fetch_error [OF assms that(1)] fetch_catch_marker [OF that(2)]
    by simp
  have shape: "main_loop env editions token (ed # rest) w =
              main_loop env editions token rest
                (console_log ?w1 (''Edition '' @ String_number env ed @
                    '' - fetch failed: Unexpected API response shape (missing posts array)''))"
    if "https_request env (length (requests w)) token tid = Response statusCode data"
       "200 \<le> statusCode \<and> statusCode < 300"
       "JSON_parse env (if data = [] then ''{}'' else data) = Inr response"
       "\<not> isArray (property response ''posts'')"
       "\<not> (property response ''success'' = Some (JBool False)
              \<and> property response ''message'' = Some (JStr ''MAX_HOURLY_CALLS_EXCEEDED''))"
    for statusCode data response
  proof -
    let ?e = "JsError ''Error'' ''Unexpected API response shape (missing posts array)''"
    have f: "fetchThreadPosts env (length (requests w)) token tid = Inl ?e"
      by (rule fetch_missing_posts [OF that])
    have n: "name ?e \<noteq> ''RateLimitError''" by simp
    have m: "\<not> string_includes (message ?e) ''MAX_HOURLY_CALLS_EXCEEDED''"
      using shape_message_has_no_marker by simp
    show ?thesis using generic [OF f n m] by simp
  qed
  show ?thesis
    using generic marker shape fetch_http_status fetch_not_json
    by (intro conjI allI impI) blast+
qed

theorem generic_failure_advances_witness:
  "fetchThreadPosts sample_host 0 ''tok'' ''46'' = Inl (JsError ''Error'' ''HTTP 500: oops'')
   \<and> main_loop sample_host sample_editions ''tok'' [16, 10] empty_world =
       main_loop sample_host sample_editions ''tok'' [10]
         (console_log (empty_world\<lparr>requests := [''46'']\<rparr>)
            ''Edition 16 - fetch failed: HTTP 500: oops'')"
proof -
  have t: "extractTidFromLink sample_host
               (lookup_link sample_editions (String_number sample_host 16)) = Some ''46''"
    using sample_editions_table(7) sample_tids(5) by (simp add: lookup_link_def sample_String_small)
  have i: "\<not> posts_json_complete sample_host (files empty_world (String_number sample_host 16))"
    by (simp add: posts_json_complete_def empty_world_def)
  have f: "fetchThreadPosts sample_host (length (requests empty_world)) ''tok'' ''46''
             = Inl (JsError ''Error'' ''HTTP 500: oops'')"
    by (rule sample_fetches)
  have n: "name (JsError ''Error'' ''HTTP 500: oops'') \<noteq> ''RateLimitError''" by simp
  have m: "\<not> string_includes (message (JsError ''Error'' ''HTTP 500: oops'')) ''MAX_HOURLY_CALLS_EXCEEDED''"
    by (simp add: startsWith_def)
  have "main_loop sample_host sample_editions ''tok'' (16 # [10]) empty_world =
          main_loop sample_host sample_editions ''tok'' [10]
            (console_log (empty_world\<lparr>requests := requests empty_world @ [''46'']\<rparr>)
               (''Edition '' @ String_number sample_host 16 @ '' - fetch failed: '' @
                message (JsError ''Error'' ''HTTP 500: oops'')))"
    using generic_failure_advances [OF t i, of "''tok''" "[10]"] f n m by blast
  then show ?thesis using sample_fetches(5) [of 0 "''tok''"]
    by (simp add: sample_String_small empty_world_def)
qed

text \<open>
  Claim C6 as it is written fails: the status 429 with the body \<open>MAX_HOURLY_CALLS_EXCEEDED\<close>
  is a failure by HTTP status, its error is a plain \<open>Error\<close>, and yet the batch halts at
  edition 15 and never reaches edition 16, since the \<open>catch\<close> block also looks for that text
  in the message.
\<close>

theorem http_status_with_marker_halts:
  "https_request sample_host 0 ''tok'' ''44'' = Response 429 ''MAX_HOURLY_CALLS_EXCEEDED''
   \<and> fetchThreadPosts sample_host 0 ''tok'' ''44''
       = Inl (JsError ''Error'' ''HTTP 429: MAX_HOURLY_CALLS_EXCEEDED'')
   \<and> name (JsError ''Error'' ''HTTP 429: MAX_HOURLY_CALLS_EXCEEDED'') \<noteq> ''RateLimitError''
   \<and> main_loop sample_host sample_editions ''tok'' [15, 16] empty_world
       = Exit 1 (console_log (empty_world\<lparr>requests := [''44'']\<rparr>)
                   ''Rate limit reached: MAX_HOURLY_CALLS_EXCEEDED. Stopping.'')"
proof -
  have t: "extractTidFromLink sample_host
               (lookup_link sample_editions (String_number sample_host 15)) = Some ''44''"
    using sample_editions_table(6) sample_tids(3) by (simp add: lookup_link_def sample_String_small)
  have i: "\<not> posts_json_complete sample_host (files empty_world (String_number sample_host 15))"
    by (simp add: posts_json_complete_def empty_world_def)
  have f: "fetchThreadPosts sample_host (length (requests empty_world)) ''tok'' ''44''
             = Inl (JsError ''Error'' ''HTTP 429: MAX_HOURLY_CALLS_EXCEEDED'')"
    by (rule sample_fetches)
  have m: "string_includes (message (JsError ''Error'' ''HTTP 429: MAX_HOURLY_CALLS_EXCEEDED''))
             ''MAX_HOURLY_CALLS_EXCEEDED''"
    by (simp add: startsWith_def)
  have "process_edition sample_host sample_editions ''tok'' 15 empty_world
          = Exit 1 (console_log (empty_world\<lparr>requests := requests empty_world @ [''44'']\<rparr>)
                   ''Rate limit reached: MAX_HOURLY_CALLS_EXCEEDED. Stopping.'')"
    using process_fetch_error [OF t i f] fetch_catch_marker [OF m] by simp
  then have "main_loop sample_host sample_editions ''tok'' [15, 16] empty_world
       = Exit 1 (console_log (empty_world\<lparr>requests := [''44'']\<rparr>)
                   ''Rate limit reached: MAX_HOURLY_CALLS_EXCEEDED. Stopping.'')"
    by (simp add: empty_world_def)
  moreover have "https_request sample_host 0 ''tok'' ''44'' = Response 429 ''MAX_HOURLY_CALLS_EXCEEDED''"
    by (simp add: sample_host_def sample_https_def)
  ultimately show ?thesis using sample_fetches(3) [of 0 "''tok''"] by simp
qed

section \<open>Properties of the command line\<close>

lemma console_error_only_stderr:
  "files (console_error w m) = files w"
  "stdout (console_error w m) = stdout w"
  "requests (console_error w m) = requests w"
  "registry_reads (console_error w m) = registry_reads w"
  "stderr (console_error w m) = stderr w @ [m]"
  by (simp_all add: console_error_def)

lemma main_usage:
  "main_args env argv = Inl m \<Longrightarrow> main env argv w = (1, console_error w m)"
  by (simp add: main_def)

lemma parseArgs_short:
  assumes "a \<noteq> []" "\<not> startsWith a ''--''" "b \<noteq> []" "\<not> startsWith b ''--''"
          "c \<noteq> []" "\<not> startsWith c ''--''"
  shows "parseArgs [node, script, ''--s'', a, ''--e'', b, ''--t'', c]
           = [''s'' \<mapsto> AStr a, ''e'' \<mapsto> AStr b, ''t'' \<mapsto> AStr c]"
  using assms by (simp add: parseArgs_def Let_def split_def startsWith_def)

lemma parseArgs_long:
  assumes "a \<noteq> []" "\<not> startsWith a ''--''" "b \<noteq> []" "\<not> startsWith b ''--''"
          "c \<noteq> []" "\<not> startsWith c ''--''"
  shows "parseArgs [node, script, ''--start'', a, ''--end'', b, ''--token'', c]
           = [''start'' \<mapsto> AStr a, ''end'' \<mapsto> AStr b, ''token'' \<mapsto> AStr c]"
  using assms by (simp add: parseArgs_def Let_def split_def startsWith_def)

lemma main_args_short_long:
  assumes "a \<noteq> []" "\<not> startsWith a ''--''" "b \<noteq> []" "\<not> startsWith b ''--''"
          "c \<noteq> []" "\<not> startsWith c ''--''"
  shows "main_args env [node, script, ''--s'', a, ''--e'', b, ''--t'', c]
           = main_args env [node, script, ''--start'', a, ''--end'', b, ''--token'', c]"
  using assms
  by (simp add: main_args_def parseArgs_short parseArgs_long or_else_def arg_truthy_def Let_def
           split: option.splits)

text \<open>
  What holds of the command line. When an option is set under neither of its names, the
  usage line is written to the error stream; when \<open>Number\<close> of start or end is \<open>NaN\<close> or
  infinite, or end is below start, the matching message is. In each case the exit status
  is 1 and nothing but the error stream has changed: no registry read, no request, no file.
  The short names \<open>s\<close>, \<open>e\<close> and \<open>t\<close> stand for \<open>start\<close>, \<open>end\<close> and \<open>token\<close>; they too are
  written with two dashes.
\<close>

lemma command_line_validation:
  "(parseArgs argv ''start'' = None \<and> parseArgs argv ''s'' = None
      \<or> parseArgs argv ''end'' = None \<and> parseArgs argv ''e'' = None
      \<or> parseArgs argv ''token'' = None \<and> parseArgs argv ''t'' = None \<longrightarrow>
      main env argv w =
        (1, console_error w
              ''Usage: node scripts/fetch_posts.js --start <StartEditionNumber> --end <EndEditionNumber> --token <APIToken>''))
   \<and> (arg_truthy (or_else (parseArgs argv ''start'') (parseArgs argv ''s''))
      \<and> arg_truthy (or_else (parseArgs argv ''end'') (parseArgs argv ''e''))
      \<and> arg_truthy (or_else (parseArgs argv ''token'') (parseArgs argv ''t''))
      \<and> (Number_arg env (or_else (parseArgs argv ''start'') (parseArgs argv ''s'')) = None
          \<or> Number_arg env (or_else (parseArgs argv ''end'') (parseArgs argv ''e'')) = None) \<longrightarrow>
      main env argv w = (1, console_error w ''Start and End must be numeric''))
   \<and> (\<forall>startNum endNum.
        arg_truthy (or_else (parseArgs argv ''start'') (parseArgs argv ''s''))
      \<and> arg_truthy (or_else (parseArgs argv ''end'') (parseArgs argv ''e''))
      \<and> arg_truthy (or_else (parseArgs argv ''token'') (parseArgs argv ''t''))
      \<and> Number_arg env (or_else (parseArgs argv ''start'') (parseArgs argv ''s'')) = Some startNum
      \<and> Number_arg env (or_else (parseArgs argv ''end'') (parseArgs argv ''e'')) = Some endNum
      \<and> endNum < startNum \<longrightarrow>
      main env argv w = (1, console_error w ''End must be >= Start''))
   \<and> files (console_error w m) = files w
   \<and> requests (console_error w m) = requests w
   \<and> registry_reads (console_error w m) = registry_reads w
   \<and> stdout (console_error w m) = stdout w
   \<and> (a \<noteq> [] \<and> \<not> startsWith a ''--'' \<and> b \<noteq> [] \<and> \<not> startsWith b ''--''
      \<and> c \<noteq> [] \<and> \<not> startsWith c ''--'' \<longrightarrow>
      main env [node, script, ''--s'', a, ''--e'', b, ''--t'', c] w
        = main env [node, script, ''--start'', a, ''--end'', b, ''--token'', c] w)"
proof -
  let ?start = "or_else (parseArgs argv ''start'') (parseArgs argv ''s'')"
  let ?end = "or_else (parseArgs argv ''end'') (parseArgs argv ''e'')"
  let ?token = "or_else (parseArgs argv ''token'') (parseArgs argv ''t'')"
  have missing: "main_args env argv =
      Inl ''Usage: node scripts/fetch_posts.js --start <StartEditionNumber> --end <EndEditionNumber> --token <APIToken>''"
    if "parseArgs argv ''start'' = None \<and> parseArgs argv ''s'' = None
      \<or> parseArgs argv ''end'' = None \<and> parseArgs argv ''e'' = None
      \<or> parseArgs argv ''token'' = None \<and> parseArgs argv ''t'' = None"
  proof -
    have "\<not> arg_truthy ?start \<or> \<not> arg_truthy ?end \<or> \<not> arg_truthy ?token"
      using that by (auto simp: or_else_def arg_truthy_def)
    then show ?thesis by (simp add: main_args_def Let_def)
  qed
  have numeric: "main_args env argv = Inl ''Start and End must be numeric''"
    if "arg_truthy ?start" "arg_truthy ?end" "arg_truthy ?token"
       "Number_arg env ?start = None \<or> Number_arg env ?end = None"
    using that by (auto simp: main_args_def Let_def split: option.splits)
  have order: "main_args env argv = Inl ''End must be >= Start''"
    if "arg_truthy ?start" "arg_truthy ?end" "arg_truthy ?token"
       "Number_arg env ?start = Some startNum" "Number_arg env ?end = Some endNum"
       "endNum < startNum" for startNum endNum
    using that by (simp add: main_args_def Let_def)
  have short: "main env [node, script, ''--s'', a, ''--e'', b, ''--t'', c] w
        = main env [node, script, ''--start'', a, ''--end'', b, ''--token'', c] w"
    if "a \<noteq> []" "\<not> startsWith a ''--''" "b \<noteq> []" "\<not> startsWith b ''--''"
       "c \<noteq> []" "\<not> startsWith c ''--''"
    using main_args_short_long [OF that] by (simp add: main_def)
  show ?thesis
    using main_usage [OF missing] main_usage [OF numeric] main_usage [OF order] short
    by (simp add: console_error_only_stderr)
qed

lemma command_line_examples:
  "main sample_host [''node'', ''fetch_posts.js'', ''--start'', ''12'', ''--token'', ''tok''] empty_world
     = (1, console_error empty_world
             ''Usage: node scripts/fetch_posts.js --start <StartEditionNumber> --end <EndEditionNumber> --token <APIToken>'')
   \<and> main sample_host [''node'', ''fetch_posts.js'', ''--start'', ''abc'', ''--end'', ''13'', ''--token'', ''tok'']
       empty_world
     = (1, console_error empty_world ''Start and End must be numeric'')
   \<and> main sample_host [''node'', ''fetch_posts.js'', ''--start'', ''13'', ''--end'', ''12'', ''--token'', ''tok'']
       empty_world
     = (1, console_error empty_world ''End must be >= Start'')
   \<and> main sample_host [''node'', ''fetch_posts.js'', ''--s'', ''12'', ''--e'', ''13'', ''--t'', ''tok'']
       empty_world
     = main sample_host [''node'', ''fetch_posts.js'', ''--start'', ''12'', ''--end'', ''13'', ''--token'', ''tok'']
       empty_world"
proof -
  let ?a1 = "[''node'', ''fetch_posts.js'', ''--start'', ''12'', ''--token'', ''tok'']"
  let ?a2 = "[''node'', ''fetch_posts.js'', ''--start'', ''abc'', ''--end'', ''13'', ''--token'', ''tok'']"
  let ?a3 = "[''node'', ''fetch_posts.js'', ''--start'', ''13'', ''--end'', ''12'', ''--token'', ''tok'']"
  have p1: "parseArgs ?a1 = [''start'' \<mapsto> AStr ''12'', ''token'' \<mapsto> AStr ''tok'']"
    by (simp add: parseArgs_def Let_def split_def startsWith_def)
  have p2: "parseArgs ?a2 = [''start'' \<mapsto> AStr ''abc'', ''end'' \<mapsto> AStr ''13'', ''token'' \<mapsto> AStr ''tok'']"
    by (simp add: parseArgs_def Let_def split_def startsWith_def)
  have p3: "parseArgs ?a3 = [''start'' \<mapsto> AStr ''13'', ''end'' \<mapsto> AStr ''12'', ''token'' \<mapsto> AStr ''tok'']"
    by (simp add: parseArgs_def Let_def split_def startsWith_def)
  have n12: "Number_string sample_host ''12'' = Some 12"
    by (simp add: sample_host_def sample_Number_def digits_only_def is_digit_def decimal_value_def)
  have n13: "Number_string sample_host ''13'' = Some 13"
    by (simp add: sample_host_def sample_Number_def digits_only_def is_digit_def decimal_value_def)
  have nabc: "Number_string sample_host ''abc'' = None"
    by (simp add: sample_host_def sample_Number_def digits_only_def is_digit_def)
  have c1: "main sample_host ?a1 empty_world
     = (1, console_error empty_world
             ''Usage: node scripts/fetch_posts.js --start <StartEditionNumber> --end <EndEditionNumber> --token <APIToken>'')"
    using command_line_validation [of ?a1 sample_host empty_world]
    by (simp add: p1)
  have c2: "main sample_host ?a2 empty_world
     = (1, console_error empty_world ''Start and End must be numeric'')"
    using command_line_validation [of ?a2 sample_host empty_world]
    by (simp add: p2 or_else_def arg_truthy_def Number_arg_def nabc)
  have c3: "main sample_host ?a3 empty_world
     = (1, console_error empty_world ''End must be >= Start'')"
    using command_line_validation [of ?a3 sample_host empty_world]
    by (simp add: p3 or_else_def arg_truthy_def Number_arg_def n12 n13)
  have c4: "main sample_host [''node'', ''fetch_posts.js'', ''--s'', ''12'', ''--e'', ''13'', ''--t'', ''tok'']
       empty_world
     = main sample_host [''node'', ''fetch_posts.js'', ''--start'', ''12'', ''--end'', ''13'', ''--token'', ''tok'']
       empty_world"
    using command_line_validation [of _ sample_host empty_world _ "''12''" "''13''" "''tok''"
            "''node''" "''fetch_posts.js''"]
    by (simp add: startsWith_def)
  show ?thesis using c1 c2 c3 c4 by simp
qed

text \<open>A part that starts with a single dash is passed over, as is the part after it.\<close>

lemma single_dash_flags_ignored:
  "main sample_host [''node'', ''fetch_posts.js'', ''-s'', ''12'', ''-e'', ''13'', ''-t'', ''tok''] empty_world
     = (1, console_error empty_world
             ''Usage: node scripts/fetch_posts.js --start <StartEditionNumber> --end <EndEditionNumber> --token <APIToken>'')"
  by (simp add: main_def main_args_def parseArgs_def Let_def startsWith_def or_else_def arg_truthy_def)

text \<open>
  Claim C7. The claim has a run without a start edition end in the usage message, with a
  non-zero status and no work done. The code misses the case of a flag without a value:
  for \<open>--start --end 2 --token tok\<close> the parser stores \<open>true\<close> under \<open>start\<close>, the test
  \<open>!start\<close> lets it pass and \<open>Number(true)\<close> is 1, so the run reads the registry, goes
  through the editions 1 and 2 and ends with status 0 and nothing on the error stream.
\<close>

theorem bare_start_flag_runs_batch:
  "main_args sample_host
     [''node'', ''fetch_posts.js'', ''--start'', ''--end'', ''2'', ''--token'', ''tok'']
     = Inr (1, 2, ''tok'')
   \<and> main sample_host
       [''node'', ''fetch_posts.js'', ''--start'', ''--end'', ''2'', ''--token'', ''tok'']
       empty_world
     = (0, console_log
             (console_log (empty_world\<lparr>registry_reads := 1\<rparr>) ''Edition 1 - no tid found'')
             ''Edition 2 - no tid found'')"
proof -
  have a: "main_args sample_host
     [''node'', ''fetch_posts.js'', ''--start'', ''--end'', ''2'', ''--token'', ''tok'']
     = Inr (1, 2, ''tok'')"
    by (simp add: main_args_def parseArgs_def Let_def startsWith_def split_def or_else_def
        arg_truthy_def Number_arg_def token_text_def sample_host_def sample_Number_def
        digits_only_def is_digit_def decimal_value_def)
  have csv: "editions_csv sample_host = Some sample_csv" by (simp add: sample_host_def)
  have eds: "edition_numbers 1 2 = [1, 2]" by (simp add: edition_numbers.simps)
  have k: "String_number sample_host 1 = ''1''" "String_number sample_host 2 = ''2''"
    by (simp_all add: sample_host_def sample_String_def decimal.simps digit_char_def)
  have e: "sample_editions ''1'' = None" "sample_editions ''2'' = None"
    by (simp_all add: sample_editions_def sample_csv_def editionToLink_def readCsv_def split_lines_def
      parseCsvLineFirstN_def destructure_def trim_def is_space_def)
  have t: "extractTidFromLink sample_host (lookup_link sample_editions (String_number sample_host 1)) = None"
          "extractTidFromLink sample_host (lookup_link sample_editions (String_number sample_host 2)) = None"
    by (simp_all add: k e lookup_link_def extractTidFromLink_def)
  have s1: "process_edition sample_host (editionToLink (readCsv sample_csv)) ''tok'' 1 w =
              Continue (console_log w ''Edition 1 - no tid found'')" for w
    using process_no_tid [OF t(1), of "''tok''" w] by (simp add: k sample_editions_def)
  have s2: "process_edition sample_host (editionToLink (readCsv sample_csv)) ''tok'' 2 w =
              Continue (console_log w ''Edition 2 - no tid found'')" for w
    using process_no_tid [OF t(2), of "''tok''" w] by (simp add: k sample_editions_def)
  show ?thesis
    using a main_after_args [OF a csv, of empty_world]
    by (simp add: eds s1 s2 empty_world_def)
qed

theorem bare_start_flag_runs_batch_witness:
  "fst (main sample_host
          [''node'', ''fetch_posts.js'', ''--start'', ''--end'', ''2'', ''--token'', ''tok'']
          empty_world) = 0
   \<and> stderr (snd (main sample_host
          [''node'', ''fetch_posts.js'', ''--start'', ''--end'', ''2'', ''--token'', ''tok'']
          empty_world)) = []
   \<and> registry_reads (snd (main sample_host
          [''node'', ''fetch_posts.js'', ''--start'', ''--end'', ''2'', ''--token'', ''tok'']
          empty_world)) = 1
   \<and> stdout (snd (main sample_host
          [''node'', ''fetch_posts.js'', ''--start'', ''--end'', ''2'', ''--token'', ''tok'']
          empty_world)) = [''Edition 1 - no tid found'', ''Edition 2 - no tid found'']"
  using bare_start_flag_runs_batch by (simp add: console_log_def empty_world_def)

end
